theory Spec2Isabelle
  imports Main "HOL-Library.AList" "HOL-Library.Char_ord" "HOL-Library.List_Lexorder"
begin

section \<open>Legacy alerting to unified alerting: the migration engine\<close>

text \<open>
  A shallow embedding of the Go package \<open>migration\<close>: the channel migration
  (\<open>setupAlertmanagerConfigs\<close> and the functions it calls), the rule translation helpers
  (\<open>transNoData\<close>, \<open>transExecErr\<close>, \<open>truncateRuleName\<close>, the query fix for Prometheus),
  \<open>insertRules\<close>, the folder name of a dashboard with its own permissions, the UID
  allocator \<open>uidSet\<close> and the cleanup of one dashboard's migration.

  Conventions. A Go \<open>string\<close> is a \<open>string\<close> here (a list of bytes), \<open>len\<close> is
  \<open>length\<close>. \<open>int64\<close> identifiers and durations are \<open>int\<close>: the code compares and
  copies them and never computes with them near the bounds. A function that returns
  \<open>(T, error)\<close> returns \<open>error + T\<close>, a run time panic is one more error value.
  State the code mutates (the set of seen UIDs, the migration state of an organisation,
  the labels of a rule) is passed in and returned. Calls to the logger change no value
  the code returns and are left out. Small functions of the Go library (\<open>Sprintf\<close> with
  \<open>%s\<close>, \<open>ReplaceAll\<close>, \<open>Join\<close>, \<open>sort.Strings\<close>) are written out; the JSON decoder,
  the random UID generator, the hash, the services and the stores outside the package
  are parameters of the functions that call them.
\<close>

subsection \<open>Errors\<close>

datatype error =
    SliceBoundsOutOfRange
  | FailedToGenerateUID
  | SettingsNotAMap
  | EncryptFailed
  | MarshalFailed
  | InvalidReceiver
  | InvalidMatcher
  | StoreFailed
  | LoadChannelsFailed error
  | CreateReceiverFailed int error
  | CreateDefaultRouteFailed int error
  | CreateRouteFailed string int error
  | ValidateFailed int error
  | DeleteRulesFailed error
  | DeleteFolderFailed string error

subsection \<open>No-data and error state translation\<close>

datatype NoDataState = Alerting | NoData | OK

datatype ExecutionErrorState = AlertingErrState | ErrorErrState | OkErrState

text \<open>
  The legacy option constants (\<open>legacymodels.NoDataSetOK\<close> and the others) are declared
  outside the files at hand, so the translations take them as a parameter. The Go
  compiler rejects a \<open>switch\<close> with two equal constant cases: in a program that compiles
  the constants of one switch differ from each other and from the empty string, which
  \<open>legacy_options_ok\<close> says.
\<close>

record legacy_options =
  NoDataSetOK :: string
  NoDataSetNoData :: string
  NoDataSetAlerting :: string
  NoDataKeepState :: string
  ExecutionErrorSetAlerting :: string
  ExecutionErrorKeepState :: string
  ExecutionErrorSetOk :: string

definition legacy_options_ok :: "legacy_options \<Rightarrow> bool" where
  "legacy_options_ok lo =
     (distinct [NoDataSetOK lo, [], NoDataSetNoData lo, NoDataSetAlerting lo, NoDataKeepState lo]
      \<and> distinct [[], ExecutionErrorSetAlerting lo, ExecutionErrorKeepState lo,
                   ExecutionErrorSetOk lo])"

definition transNoData :: "legacy_options \<Rightarrow> string \<Rightarrow> NoDataState" where
  "transNoData lo s =
     (if s = NoDataSetOK lo then OK
      else if s = [] \<or> s = NoDataSetNoData lo then NoData
      else if s = NoDataSetAlerting lo then Alerting
      else if s = NoDataKeepState lo then NoData
      else NoData)"

definition transExecErr :: "legacy_options \<Rightarrow> string \<Rightarrow> ExecutionErrorState" where
  "transExecErr lo s =
     (if s = [] \<or> s = ExecutionErrorSetAlerting lo then AlertingErrState
      else if s = ExecutionErrorKeepState lo then ErrorErrState
      else if s = ExecutionErrorSetOk lo then OkErrState
      else ErrorErrState)"

text \<open>The values the constants have in Grafana's legacy alerting models.\<close>

definition grafana_legacy_options :: legacy_options where
  "grafana_legacy_options =
     \<lparr> NoDataSetOK = ''ok'', NoDataSetNoData = ''no_data'', NoDataSetAlerting = ''alerting'',
       NoDataKeepState = ''keep_state'', ExecutionErrorSetAlerting = ''alerting'',
       ExecutionErrorKeepState = ''keep_state'', ExecutionErrorSetOk = ''ok'' \<rparr>"

subsection \<open>The folder of a dashboard with its own permissions\<close>

record dashboard =
  DashID :: int
  DashOrgID :: int
  DashUID :: string
  DashTitle :: string
  HasACL :: bool
  FolderID :: int

text \<open>\<open>fmt.Sprintf(DASHBOARD_FOLDER, title, uid)\<close> with the format \<open>"%s Alerts - %s"\<close>.\<close>

definition DASHBOARD_FOLDER :: "string \<Rightarrow> string \<Rightarrow> string" where
  "DASHBOARD_FOLDER title uid = title @ '' Alerts - '' @ uid"

definition MaxFolderName :: int where
  "MaxFolderName = 255"

text \<open>The Go slice \<open>s[:n]\<close>: it panics unless \<open>0 \<le> n \<le> len(s)\<close>.\<close>

definition slice_upto :: "string \<Rightarrow> int \<Rightarrow> error + string" where
  "slice_upto s n =
     (if n < 0 \<or> int (length s) < n then Inl SliceBoundsOutOfRange else Inr (take (nat n) s))"

definition getAlertFolderNameFromDashboard :: "dashboard \<Rightarrow> error + string" where
  "getAlertFolderNameFromDashboard dash =
     (let maxLen = MaxFolderName - int (length (DASHBOARD_FOLDER [] (DashUID dash)));
          title = DashTitle dash
      in if maxLen < int (length title)
         then (case slice_upto title maxLen of
                 Inl e \<Rightarrow> Inl e
               | Inr t \<Rightarrow> Inr (DASHBOARD_FOLDER t (DashUID dash)))
         else Inr (DASHBOARD_FOLDER title (DashUID dash)))"

subsection \<open>Query fixes\<close>

text \<open>
  A query model is a \<open>map[string]json.RawMessage\<close>: a map from field names to raw
  JSON texts. \<open>json.Unmarshal\<close> belongs to the Go library, so the two uses the code makes
  of it are parameters: \<open>UnmarshalBool raw\<close> is the value of a fresh \<open>bool\<close> variable
  after \<open>json.Unmarshal(raw, &v)\<close>, and \<open>UnmarshalDatasourceType raw\<close> the field
  \<open>Type\<close> of a fresh \<open>struct { Type string `json:"type"` }\<close> after decoding
  \<open>raw\<close> into it; \<open>None\<close> stands for an error of the decoder.
\<close>

type_synonym RawMessage = string

type_synonym queryData = "string \<rightharpoonup> RawMessage"

record json_lib =
  UnmarshalBool :: "RawMessage \<Rightarrow> bool option"
  UnmarshalDatasourceType :: "RawMessage \<Rightarrow> string option"

datatype query_error = MissingDatasourceField | ParseDatasource RawMessage | MissingTypeField RawMessage

definition isPrometheusQuery :: "json_lib \<Rightarrow> queryData \<Rightarrow> query_error + bool" where
  "isPrometheusQuery js q =
     (case q ''datasource'' of
        None \<Rightarrow> Inl MissingDatasourceField
      | Some ds \<Rightarrow>
          (case UnmarshalDatasourceType js ds of
             None \<Rightarrow> Inl (ParseDatasource ds)
           | Some ty \<Rightarrow>
               if ty = [] then Inl (MissingTypeField ds) else Inr (ty = ''prometheus'')))"

text \<open>
  A field that is absent leaves its flag \<open>false\<close>; a field that does not decode returns
  the query as it is.
\<close>

definition fixPrometheusBothTypeQuery :: "json_lib \<Rightarrow> queryData \<Rightarrow> queryData" where
  "fixPrometheusBothTypeQuery js q =
     (case (case q ''instant'' of None \<Rightarrow> Some False | Some instantRaw \<Rightarrow> UnmarshalBool js instantRaw) of
        None \<Rightarrow> q
      | Some instant \<Rightarrow>
          (case (case q ''range'' of None \<Rightarrow> Some False | Some rangeRaw \<Rightarrow> UnmarshalBool js rangeRaw) of
             None \<Rightarrow> q
           | Some rng \<Rightarrow>
               if \<not> instant \<or> \<not> rng then q
               else (case isPrometheusQuery js q of
                       Inl err \<Rightarrow> q
                     | Inr isPrometheus \<Rightarrow>
                         if \<not> isPrometheus then q else q(''instant'' \<mapsto> ''false''))))"

text \<open>\<open>quote\<close> surrounds a string with double quotes (the byte \<open>0x22\<close>).\<close>

definition quote :: "string \<Rightarrow> string" where
  "quote s = CHR 0x22 # s @ [CHR 0x22]"

subsection \<open>Notification channels and receivers\<close>

text \<open>
  The settings of a channel are a \<open>simplejson.Json\<close>: any JSON value. A number carries
  its text. An object is the list of its members; the Go value is a map, so the keys of
  one object are distinct.
\<close>

datatype json =
    JNull
  | JBool bool
  | JNumber string
  | JString string
  | JArray "json list"
  | JObject "(string \<times> json) list"

type_synonym SecureJsonData = "(string \<times> string) list"

record AlertNotification =
  ID :: int
  OrgID :: int
  UID :: string
  Name :: string
  Type :: string
  DisableResolveMessage :: bool
  IsDefault :: bool
  Settings :: json
  SecureSettings :: SecureJsonData
  SendReminder :: bool
  Frequency :: int

record PostableGrafanaReceiver =
  NotifierUID :: string
  NotifierName :: string
  NotifierType :: string
  NotifierDisableResolveMessage :: bool
  NotifierSettings :: RawMessage
  NotifierSecureSettings :: "(string \<times> string) list"

record PostableApiReceiver =
  ReceiverName :: string
  GrafanaManagedReceivers :: "PostableGrafanaReceiver list"

record channelReceiver =
  channel :: AlertNotification
  receiver :: PostableApiReceiver

text \<open>
  What the package takes from outside the files at hand, as one parameter:
  \<^item> \<open>GenerateShortUID n\<close>: the value of the \<open>n\<close>-th call of \<open>util.GenerateShortUID()\<close>
    in this run (the generator is random; the run fixes its values);
  \<^item> \<open>ToLower\<close>: \<open>strings.ToLower\<close>;
  \<^item> \<open>md5_hex3 s\<close>: \<open>fmt.Sprintf("%.3x", md5.Sum([]byte(s)))\<close>, the first three bytes of
    the MD5 of \<open>s\<close> in hexadecimal;
  \<^item> \<open>QuoteMeta\<close>: \<open>regexp.QuoteMeta\<close>; \<open>RegexpCompiles\<close>: whether
    \<open>labels.NewMatcher\<close> accepts the expression;
  \<^item> \<open>EncodeToString\<close>: the standard base64 encoding;
  \<^item> \<open>DecryptSecure\<close>: \<open>SecureJsonData.Decrypt\<close>;
  \<^item> \<open>Encrypt\<close>: the encryption service, \<open>None\<close> when it returns an error;
  \<^item> \<open>MarshalJSON\<close>: the encoding of a settings object, \<open>None\<close> on error;
  \<^item> \<open>BuildReceiverConfiguration\<close>: whether the alerting library accepts the settings
    of a notifier;
  \<^item> \<open>ContactLabel\<close>: the name of the routing label.
\<close>

record deps =
  GenerateShortUID :: "nat \<Rightarrow> string"
  ToLower :: "string \<Rightarrow> string"
  md5_hex3 :: "string \<Rightarrow> string"
  QuoteMeta :: "string \<Rightarrow> string"
  RegexpCompiles :: "string \<Rightarrow> bool"
  EncodeToString :: "string \<Rightarrow> string"
  DecryptSecure :: "SecureJsonData \<Rightarrow> (string \<times> string) list"
  Encrypt :: "string \<Rightarrow> string option"
  MarshalJSON :: "(string \<times> json) list \<Rightarrow> RawMessage option"
  BuildReceiverConfiguration :: "PostableGrafanaReceiver \<Rightarrow> bool"
  ContactLabel :: string

subsection \<open>The UID allocator\<close>

record uidSet =
  uid_set :: "string set"
  caseInsensitive :: bool

definition contains :: "deps \<Rightarrow> uidSet \<Rightarrow> string \<Rightarrow> bool" where
  "contains d s uid =
     (let dedup = (if caseInsensitive s then ToLower d uid else uid) in dedup \<in> uid_set s)"

definition add :: "deps \<Rightarrow> uidSet \<Rightarrow> string \<Rightarrow> uidSet" where
  "add d s uid =
     (let dedup = (if caseInsensitive s then ToLower d uid else uid)
      in s\<lparr>uid_set := insert dedup (uid_set s)\<rparr>)"

text \<open>
  The state of a migration run that the channel migration changes: the set of UIDs seen
  so far and the number of short UIDs drawn from the generator.
\<close>

record migration =
  seenUIDs :: uidSet
  drawn :: nat

text \<open>
  The loop \<open>for i := 0; i < 5; i++\<close> of \<open>generateUid\<close>, with the number of attempts that
  are left as its first argument.
\<close>

fun generateUid_loop :: "nat \<Rightarrow> deps \<Rightarrow> migration \<Rightarrow> (error + string) \<times> migration" where
  "generateUid_loop 0 d m = (Inl FailedToGenerateUID, m)"
| "generateUid_loop (Suc left) d m =
     (let gen = GenerateShortUID d (drawn m);
          m' = m\<lparr>drawn := Suc (drawn m)\<rparr>
      in if \<not> contains d (seenUIDs m') gen
         then (Inr gen, m'\<lparr>seenUIDs := add d (seenUIDs m') gen\<rparr>)
         else generateUid_loop left d m')"

definition generateUid :: "deps \<Rightarrow> migration \<Rightarrow> (error + string) \<times> migration" where
  "generateUid d m = generateUid_loop 5 d m"

definition determineChannelUid ::
  "deps \<Rightarrow> migration \<Rightarrow> AlertNotification \<Rightarrow> (error + string) \<times> migration" where
  "determineChannelUid d m c =
     (let legacyUid = UID c
      in if legacyUid = [] then generateUid d m
         else if contains d (seenUIDs m) legacyUid then generateUid d m
         else (Inr legacyUid, m))"

subsection \<open>Settings and secure settings\<close>

definition secureKeysToMigrate_table :: "(string \<times> string list) list" where
  "secureKeysToMigrate_table =
     [(''slack'', [''url'', ''token'']),
      (''pagerduty'', [''integrationKey'']),
      (''webhook'', [''password'']),
      (''prometheus-alertmanager'', [''basicAuthPassword'']),
      (''opsgenie'', [''apiKey'']),
      (''telegram'', [''bottoken'']),
      (''line'', [''token'']),
      (''pushover'', [''apiToken'', ''userKey'']),
      (''threema'', [''api_secret''])]"

text \<open>Reading a Go map at a key it does not hold gives the zero value, here no keys.\<close>

definition secureKeysToMigrate :: "string \<Rightarrow> string list" where
  "secureKeysToMigrate chanType =
     (case map_of secureKeysToMigrate_table chanType of None \<Rightarrow> [] | Some keys \<Rightarrow> keys)"

text \<open>\<open>settings.Map()\<close>: the members of an object, an error for any other value.\<close>

definition Map_json :: "json \<Rightarrow> error + (string \<times> json) list" where
  "Map_json j = (case j of JObject members \<Rightarrow> Inr members | _ \<Rightarrow> Inl SettingsNotAMap)"

text \<open>
  \<open>cloneSettings.Get(k).MustString()\<close>: the string at key \<open>k\<close>, the empty string when
  the key is absent or holds anything but a string.
\<close>

definition Get_MustString :: "(string \<times> json) list \<Rightarrow> string \<Rightarrow> string" where
  "Get_MustString settings k = (case map_of settings k of Some (JString s) \<Rightarrow> s | _ \<Rightarrow> [])"

text \<open>The loop over the keys on record for the channel type.\<close>

fun migrateKeys ::
  "string list \<Rightarrow> (string \<times> json) list \<Rightarrow> (string \<times> string) list
     \<Rightarrow> (string \<times> json) list \<times> (string \<times> string) list" where
  "migrateKeys [] cloneSettings newSecureSettings = (cloneSettings, newSecureSettings)"
| "migrateKeys (k # keys) cloneSettings newSecureSettings =
     (if (case map_of newSecureSettings k of Some v \<Rightarrow> v \<noteq> [] | None \<Rightarrow> False)
      then migrateKeys keys cloneSettings newSecureSettings
      else (let sv = Get_MustString cloneSettings k
            in if sv \<noteq> []
               then migrateKeys keys (AList.delete k cloneSettings) (AList.update k sv newSecureSettings)
               else migrateKeys keys cloneSettings newSecureSettings))"

text \<open>
  \<open>encryptSecureSettings\<close> replaces each value by the base64 text of its encryption and
  stops at the first value the service fails on.
\<close>

fun encryptSecureSettings :: "deps \<Rightarrow> (string \<times> string) list \<Rightarrow> error + (string \<times> string) list" where
  "encryptSecureSettings d [] = Inr []"
| "encryptSecureSettings d ((key, val) # rest) =
     (case Encrypt d val of
        None \<Rightarrow> Inl EncryptFailed
      | Some encryptedData \<Rightarrow>
          (case encryptSecureSettings d rest of
             Inl err \<Rightarrow> Inl err
           | Inr rest' \<Rightarrow> Inr ((key, EncodeToString d encryptedData) # rest')))"

definition migrateSettingsToSecureSettings ::
  "deps \<Rightarrow> string \<Rightarrow> json \<Rightarrow> SecureJsonData
     \<Rightarrow> error + ((string \<times> json) list \<times> (string \<times> string) list)" where
  "migrateSettingsToSecureSettings d chanType settings secureSettings =
     (let keys = secureKeysToMigrate chanType;
          newSecureSettings = DecryptSecure d secureSettings
      in case Map_json settings of
           Inl err \<Rightarrow> Inl err
         | Inr settingsMap \<Rightarrow>
             (let cloneSettings = foldl (\<lambda>clone (k, v). AList.update k v clone) [] settingsMap;
                  (cloneSettings', newSecureSettings') = migrateKeys keys cloneSettings newSecureSettings
              in case encryptSecureSettings d newSecureSettings' of
                   Inl err \<Rightarrow> Inl err
                 | Inr encrypted \<Rightarrow> Inr (cloneSettings', encrypted)))"

subsection \<open>Receivers\<close>

text \<open>
  A legacy alert names its channels by UID or by ID (\<open>uidOrID\<close> is \<open>any\<close> in Go, holding
  a \<open>string\<close> or an \<open>int64\<close>).
\<close>

datatype uidOrID = ByUID string | ByID int

type_synonym receiversMap = "uidOrID \<rightharpoonup> PostableApiReceiver"

definition createNotifier ::
  "deps \<Rightarrow> migration \<Rightarrow> AlertNotification \<Rightarrow> (error + PostableGrafanaReceiver) \<times> migration" where
  "createNotifier d m c =
     (case determineChannelUid d m c of
        (Inl err, m') \<Rightarrow> (Inl err, m')
      | (Inr uid, m') \<Rightarrow>
          (case migrateSettingsToSecureSettings d (Type c) (Settings c) (SecureSettings c) of
             Inl err \<Rightarrow> (Inl err, m')
           | Inr (settings, secureSettings) \<Rightarrow>
               (case MarshalJSON d settings of
                  None \<Rightarrow> (Inl MarshalFailed, m')
                | Some data \<Rightarrow>
                    (Inr \<lparr> NotifierUID = uid, NotifierName = Name c, NotifierType = Type c,
                           NotifierDisableResolveMessage = DisableResolveMessage c,
                           NotifierSettings = data, NotifierSecureSettings = secureSettings \<rparr>,
                     m'))))"

text \<open>\<open>strings.ReplaceAll(name, `"`, `_`)\<close>.\<close>

definition sanitize :: "string \<Rightarrow> string" where
  "sanitize name = map (\<lambda>ch. if ch = CHR 0x22 then CHR ''_'' else ch) name"

text \<open>
  The loop of \<open>createReceivers\<close> over the channels. Its state is the map from channel
  UIDs and IDs to receivers, the receivers made so far and the set of names in use.
\<close>

fun createReceivers_loop ::
  "deps \<Rightarrow> AlertNotification list \<Rightarrow> receiversMap \<times> channelReceiver list \<times> string set
     \<Rightarrow> migration \<Rightarrow> (error + receiversMap \<times> channelReceiver list) \<times> migration" where
  "createReceivers_loop d [] (receiversMap, receivers, names) m = (Inr (receiversMap, receivers), m)"
| "createReceivers_loop d (c # allChannels) (receiversMap, receivers, names) m =
     (case createNotifier d m c of
        (Inl err, m') \<Rightarrow> (Inl err, m')
      | (Inr notifier, m') \<Rightarrow>
          (let sanitizedName =
                 (if sanitize (Name c) \<in> names
                  then sanitize (Name c) @ ''_'' @ md5_hex3 d (Name c)
                  else sanitize (Name c));
               cr = \<lparr> channel = c,
                      receiver = \<lparr> ReceiverName = sanitizedName,
                                   GrafanaManagedReceivers = [notifier\<lparr>NotifierName := sanitizedName\<rparr>] \<rparr> \<rparr>;
               byUid = (if UID c \<noteq> [] then receiversMap(ByUID (UID c) \<mapsto> receiver cr) else receiversMap);
               byId = (if ID c \<noteq> 0 then byUid(ByID (ID c) \<mapsto> receiver cr) else byUid)
           in createReceivers_loop d allChannels (byId, receivers @ [cr], insert sanitizedName names) m'))"

definition createReceivers ::
  "deps \<Rightarrow> migration \<Rightarrow> AlertNotification list
     \<Rightarrow> (error + receiversMap \<times> channelReceiver list) \<times> migration" where
  "createReceivers d m allChannels = createReceivers_loop d allChannels (Map.empty, [], {}) m"

subsection \<open>Routes\<close>

datatype Matcher = MatchRegexp string string

datatype Route =
  MkRoute (Receiver: string) (Routes: "Route list") (GroupByStr: "string list")
    (ObjectMatchers: "Matcher list") (Continue: bool) (RepeatInterval: "int option")

text \<open>8736 hours in nanoseconds.\<close>

definition DisabledRepeatInterval :: int where
  "DisabledRepeatInterval = 8736 * 3600 * 1000000000"

text \<open>
  The labels \<open>ngmodels.FolderTitleLabel\<close> and \<open>model.AlertNameLabel\<close> the root route
  groups by. They are declared outside the files at hand; these are their values in
  Grafana and in Prometheus, and nothing below depends on them.
\<close>

definition FolderTitleLabel :: string where
  "FolderTitleLabel = ''grafana_folder''"

definition AlertNameLabel :: string where
  "AlertNameLabel = ''alertname''"

text \<open>The loop over several default channels: one notifier each, the lowest reminder.\<close>

fun defaultNotifiers_loop ::
  "deps \<Rightarrow> AlertNotification list \<Rightarrow> PostableApiReceiver \<times> int \<Rightarrow> migration
     \<Rightarrow> (error + PostableApiReceiver \<times> int) \<times> migration" where
  "defaultNotifiers_loop d [] (newDefaultReceiver, repeatInterval) m =
     (Inr (newDefaultReceiver, repeatInterval), m)"
| "defaultNotifiers_loop d (c # defaultChannels) (newDefaultReceiver, repeatInterval) m =
     (case createNotifier d m c of
        (Inl err, m') \<Rightarrow> (Inl err, m')
      | (Inr defaultNotifier, m') \<Rightarrow>
          defaultNotifiers_loop d defaultChannels
            (newDefaultReceiver\<lparr>GrafanaManagedReceivers :=
                GrafanaManagedReceivers newDefaultReceiver @ [defaultNotifier]\<rparr>,
             if SendReminder c \<and> Frequency c < repeatInterval then Frequency c else repeatInterval)
            m')"

definition createDefaultRouteAndReceiver ::
  "deps \<Rightarrow> migration \<Rightarrow> AlertNotification list
     \<Rightarrow> (error + PostableApiReceiver option \<times> Route) \<times> migration" where
  "createDefaultRouteAndReceiver d m defaultChannels =
     (let defaultReceiverName = ''autogen-contact-point-default'';
          defaultRoute = MkRoute defaultReceiverName [] [FolderTitleLabel, AlertNameLabel] [] False None;
          newDefaultReceiver = \<lparr> ReceiverName = defaultReceiverName, GrafanaManagedReceivers = [] \<rparr>
      in if length defaultChannels = 0 then (Inr (Some newDefaultReceiver, defaultRoute), m)
         else if 1 < length defaultChannels
         then (case defaultNotifiers_loop d defaultChannels (newDefaultReceiver, DisabledRepeatInterval) m of
                 (Inl err, m') \<Rightarrow> (Inl err, m')
               | (Inr (newDefaultReceiver', repeatInterval), m') \<Rightarrow>
                   (Inr (Some newDefaultReceiver',
                         MkRoute defaultReceiverName [] [FolderTitleLabel, AlertNameLabel] [] False
                           (Some repeatInterval)),
                    m'))
         else (Inr (None,
                    MkRoute (Name (defaultChannels ! 0)) [] [FolderTitleLabel, AlertNameLabel] [] False
                      (Some (if SendReminder (defaultChannels ! 0)
                             then Frequency (defaultChannels ! 0) else DisabledRepeatInterval))),
               m))"

definition createRoute :: "deps \<Rightarrow> channelReceiver \<Rightarrow> error + Route" where
  "createRoute d cr =
     (let name = ''.*'' @ QuoteMeta d (quote (ReceiverName (receiver cr))) @ ''.*''
      in if \<not> RegexpCompiles d name then Inl InvalidMatcher
         else Inr (MkRoute (ReceiverName (receiver cr)) [] [] [MatchRegexp (ContactLabel d) name] True
                     (Some (if SendReminder (channel cr)
                            then Frequency (channel cr) else DisabledRepeatInterval))))"

fun createRoutes :: "deps \<Rightarrow> int \<Rightarrow> channelReceiver list \<Rightarrow> error + Route list" where
  "createRoutes d orgID [] = Inr []"
| "createRoutes d orgID (cr # receivers) =
     (case createRoute d cr of
        Inl err \<Rightarrow> Inl (CreateRouteFailed (ReceiverName (receiver cr)) orgID err)
      | Inr route \<Rightarrow>
          (case createRoutes d orgID receivers of
             Inl err \<Rightarrow> Inl err
           | Inr routes \<Rightarrow> Inr (route # routes)))"

subsection \<open>Routing labels of the rules\<close>

text \<open>
  The fields of a migrated rule that the functions at hand read or write. A Go map used
  as a set of names (\<open>map[string]any\<close>, \<open>map[string]struct{}\<close>) is a list without
  repetition; \<open>nil\<close> is the empty list, which is all its one caller asks (\<open>len\<close>).
\<close>

record AlertRule =
  RuleOrgID :: int
  Title :: string
  RuleUID :: string
  NamespaceUID :: string
  RuleGroup :: string
  Labels :: "string \<rightharpoonup> string"

definition filterReceiversForAlert :: "uidOrID list \<Rightarrow> receiversMap \<Rightarrow> string list \<Rightarrow> string list" where
  "filterReceiversForAlert channelIDs receivers defaultReceivers =
     (if length channelIDs = 0 then []
      else (let filteredReceiverNames =
                  foldl (\<lambda>names uidOrId. case receivers uidOrId of
                                             Some recv \<Rightarrow> List.insert (ReceiverName recv) names
                                           | None \<Rightarrow> names) [] channelIDs;
                coveredByDefault = (\<lambda>names. list_all (\<lambda>n. n \<in> set defaultReceivers) names)
            in if length filteredReceiverNames = 0 \<or> coveredByDefault filteredReceiverNames then []
               else foldl (\<lambda>names n. List.insert n names) filteredReceiverNames defaultReceivers))"

text \<open>\<open>strings.Join\<close>.\<close>

fun Join :: "string list \<Rightarrow> string \<Rightarrow> string" where
  "Join [] sep = []"
| "Join [x] sep = x"
| "Join (x # y # xs) sep = x @ sep @ Join (y # xs) sep"

text \<open>
  \<open>sort.Strings\<close> orders strings byte by byte, a proper prefix first: the order of
  \<open>char list\<close> here.
\<close>

definition contactListToString :: "string list \<Rightarrow> string" where
  "contactListToString m = Join (sort (map quote m)) '',''"

text \<open>
  The body of the loop over the rules of an organisation in \<open>setupAlertmanagerConfigs\<close>:
  a rule and the channels it names, and the rule with its routing label.
\<close>

definition labelRule ::
  "deps \<Rightarrow> receiversMap \<Rightarrow> string list \<Rightarrow> AlertRule \<times> uidOrID list \<Rightarrow> AlertRule \<times> uidOrID list" where
  "labelRule d receiversMap defaultReceivers rule =
     (case rule of (ar, channelUids) \<Rightarrow>
        (let filteredReceiverNames = filterReceiversForAlert channelUids receiversMap defaultReceivers
         in if length filteredReceiverNames \<noteq> 0
            then (ar\<lparr>Labels := (Labels ar)(ContactLabel d \<mapsto> contactListToString filteredReceiverNames)\<rparr>,
                  channelUids)
            else (ar, channelUids)))"

subsection \<open>Alertmanager configurations\<close>

type_synonym channelsPerOrg = "(int \<times> AlertNotification list) list"

type_synonym rulesPerOrg = "(int \<times> (AlertRule \<times> uidOrID list) list) list"

record PostableUserConfig =
  Receivers :: "PostableApiReceiver list"
  Route :: "Route option"

type_synonym amConfigsPerOrg = "(int \<times> PostableUserConfig) list"

text \<open>\<open>m[org] = append(m[org], c)\<close> on a map from organisations to channel lists.\<close>

definition append_channel :: "AlertNotification \<Rightarrow> channelsPerOrg \<Rightarrow> channelsPerOrg" where
  "append_channel c m =
     AList.update (OrgID c) ((case map_of m (OrgID c) of None \<Rightarrow> [] | Some cs \<Rightarrow> cs) @ [c]) m"

fun getNotificationChannelMap_loop ::
  "AlertNotification list \<Rightarrow> channelsPerOrg \<times> channelsPerOrg \<Rightarrow> channelsPerOrg \<times> channelsPerOrg" where
  "getNotificationChannelMap_loop [] (allChannelsMap, defaultChannelsMap) =
     (allChannelsMap, defaultChannelsMap)"
| "getNotificationChannelMap_loop (c # allChannels) (allChannelsMap, defaultChannelsMap) =
     (if Type c = ''hipchat'' \<or> Type c = ''sensu''
      then getNotificationChannelMap_loop allChannels (allChannelsMap, defaultChannelsMap)
      else getNotificationChannelMap_loop allChannels
             (append_channel c allChannelsMap,
              if IsDefault c then append_channel c defaultChannelsMap else defaultChannelsMap))"

text \<open>
  The rows of the table \<open>alert_notification\<close> are the argument: \<open>None\<close> when the query
  fails.
\<close>

definition getNotificationChannelMap ::
  "AlertNotification list option \<Rightarrow> error + channelsPerOrg \<times> channelsPerOrg" where
  "getNotificationChannelMap rows =
     (case rows of
        None \<Rightarrow> Inl StoreFailed
      | Some allChannels \<Rightarrow>
          if length allChannels = 0 then Inr ([], [])
          else Inr (getNotificationChannelMap_loop allChannels ([], [])))"

definition validateAlertmanagerConfig :: "deps \<Rightarrow> PostableUserConfig \<Rightarrow> error + unit" where
  "validateAlertmanagerConfig d config =
     (if list_all (\<lambda>r. list_all (BuildReceiverConfiguration d) (GrafanaManagedReceivers r))
           (Receivers config)
      then Inr () else Inl InvalidReceiver)"

text \<open>
  The body of the loop of \<open>setupAlertmanagerConfigs\<close> for one organisation: its
  configuration and the rules with their routing labels.
\<close>

definition setupOrg ::
  "deps \<Rightarrow> channelsPerOrg \<Rightarrow> rulesPerOrg \<Rightarrow> migration \<Rightarrow> int \<Rightarrow> AlertNotification list
     \<Rightarrow> (error + PostableUserConfig \<times> rulesPerOrg) \<times> migration" where
  "setupOrg d defaultChannelsPerOrg rulesPerOrg m orgID channels =
     (let amConfig = \<lparr> Receivers = [], Route = None \<rparr>
      in case createReceivers d m channels of
           (Inl err, m1) \<Rightarrow> (Inl (CreateReceiverFailed orgID err), m1)
         | (Inr (receiversMap, receivers), m1) \<Rightarrow>
             if length receivers = 0 then (Inr (amConfig, rulesPerOrg), m1)
             else
               (let amConfig1 = amConfig\<lparr>Receivers := Receivers amConfig @ map receiver receivers\<rparr>;
                    defaultChannels =
                      (case map_of defaultChannelsPerOrg orgID of None \<Rightarrow> [] | Some cs \<Rightarrow> cs);
                    defaultReceivers = foldl (\<lambda>names c. List.insert (Name c) names) [] defaultChannels
                in case createDefaultRouteAndReceiver d m1 defaultChannels of
                     (Inl err, m2) \<Rightarrow> (Inl (CreateDefaultRouteFailed orgID err), m2)
                   | (Inr (defaultReceiver, defaultRoute), m2) \<Rightarrow>
                       (let amConfig2 =
                              (case defaultReceiver of
                                 None \<Rightarrow> amConfig1
                               | Some r \<Rightarrow> amConfig1\<lparr>Receivers := Receivers amConfig1 @ [r]\<rparr>)
                        in case createRoutes d orgID receivers of
                             Inl err \<Rightarrow> (Inl err, m2)
                           | Inr routes \<Rightarrow>
                               (let amConfig3 =
                                      amConfig2\<lparr>Route :=
                                        Some (MkRoute (Receiver defaultRoute)
                                                (Routes defaultRoute @ routes) (GroupByStr defaultRoute)
                                                (ObjectMatchers defaultRoute) (Continue defaultRoute)
                                                (RepeatInterval defaultRoute))\<rparr>;
                                    rulesPerOrg' =
                                      (case map_of rulesPerOrg orgID of
                                         None \<Rightarrow> rulesPerOrg
                                       | Some rules \<Rightarrow>
                                           AList.update orgID
                                             (map (labelRule d receiversMap defaultReceivers) rules)
                                             rulesPerOrg)
                                in case validateAlertmanagerConfig d amConfig3 of
                                     Inl err \<Rightarrow> (Inl (ValidateFailed orgID err), m2)
                                   | Inr ok \<Rightarrow> (Inr (amConfig3, rulesPerOrg'), m2)))))"

text \<open>
  The loop over the organisations. Go ranges over the map in an order it does not fix;
  the list gives one order, and the theorems hold for every list.
\<close>

fun setupOrgs ::
  "deps \<Rightarrow> channelsPerOrg \<Rightarrow> channelsPerOrg \<Rightarrow> amConfigsPerOrg \<Rightarrow> rulesPerOrg \<Rightarrow> migration
     \<Rightarrow> (error + amConfigsPerOrg \<times> rulesPerOrg) \<times> migration" where
  "setupOrgs d defaultChannelsPerOrg [] amConfigPerOrg rulesPerOrg m =
     (Inr (amConfigPerOrg, rulesPerOrg), m)"
| "setupOrgs d defaultChannelsPerOrg ((orgID, channels) # allChannelsPerOrg) amConfigPerOrg rulesPerOrg m =
     (case setupOrg d defaultChannelsPerOrg rulesPerOrg m orgID channels of
        (Inl err, m') \<Rightarrow> (Inl err, m')
      | (Inr (amConfig, rulesPerOrg'), m') \<Rightarrow>
          setupOrgs d defaultChannelsPerOrg allChannelsPerOrg
            (AList.update orgID amConfig amConfigPerOrg) rulesPerOrg' m')"

definition setupAlertmanagerConfigs ::
  "deps \<Rightarrow> AlertNotification list option \<Rightarrow> rulesPerOrg \<Rightarrow> migration
     \<Rightarrow> (error + amConfigsPerOrg \<times> rulesPerOrg) \<times> migration" where
  "setupAlertmanagerConfigs d rows rulesPerOrg m =
     (case getNotificationChannelMap rows of
        Inl err \<Rightarrow> (Inl (LoadChannelsFailed err), m)
      | Inr (allChannelsPerOrg, defaultChannelsPerOrg) \<Rightarrow>
          setupOrgs d defaultChannelsPerOrg allChannelsPerOrg [] rulesPerOrg m)"

subsection \<open>Rule titles\<close>




subsection \<open>Cleaning up the migration of a dashboard\<close>

text \<open>
  The types of \<open>migmodels\<close> are declared outside the files at hand; these are the fields
  \<open>cleanupDashboardAlerts\<close> reads. \<open>AlertRule\<close> of a pair is a pointer and can be
  \<open>nil\<close>; \<open>MigratedAlerts\<close> is ranged over, in the order of the list.
\<close>

record AlertPair =
  PairAlertRule :: "AlertRule option"

record DashboardUpgrade =
  MigratedAlerts :: "AlertPair list"
  FolderUID :: string
  NewFolderUID :: string
  NewFolderName :: string

text \<open>
  The migration store is outside the files at hand. The model records the calls made
  on it; whether a call fails is a parameter, which may look at the calls made before.
\<close>

datatype store_call = DeleteAlertRules int "string list" | DeleteFolders int "string list"

type_synonym migrationStore = "store_call list \<Rightarrow> store_call \<Rightarrow> error option"

record OrgMigration =
  om_orgID :: int
  CreatedFolders :: "string list"
  storeCalls :: "store_call list"

definition call_store :: "migrationStore \<Rightarrow> OrgMigration \<Rightarrow> store_call \<Rightarrow> error option \<times> OrgMigration" where
  "call_store store om c = (store (storeCalls om) c, om\<lparr>storeCalls := storeCalls om @ [c]\<rparr>)"

text \<open>
  The loop that looks for the UID in \<open>CreatedFolders\<close> and cuts its first occurrence
  out: whether it was found, and the list that is left.
\<close>

fun removeCreatedFolder :: "string \<Rightarrow> string list \<Rightarrow> bool \<times> string list" where
  "removeCreatedFolder newFolderUID [] = (False, [])"
| "removeCreatedFolder newFolderUID (uid # createdFolders) =
     (if uid = newFolderUID then (True, createdFolders)
      else (case removeCreatedFolder newFolderUID createdFolders of
              (found, rest) \<Rightarrow> (found, uid # rest)))"

definition migratedRuleUids :: "AlertPair list \<Rightarrow> string list" where
  "migratedRuleUids pairs =
     concat (map (\<lambda>pair. case PairAlertRule pair of
                            Some rule \<Rightarrow> (if RuleUID rule \<noteq> [] then [RuleUID rule] else [])
                          | None \<Rightarrow> []) pairs)"

definition cleanupDashboardAlerts ::
  "migrationStore \<Rightarrow> OrgMigration \<Rightarrow> DashboardUpgrade option \<Rightarrow> error option \<times> OrgMigration" where
  "cleanupDashboardAlerts store om du' =
     (case du' of
        None \<Rightarrow> (None, om)
      | Some du \<Rightarrow>
          (let ruleUids = migratedRuleUids (MigratedAlerts du);
               (err, om1) = (if 0 < length ruleUids
                             then call_store store om (DeleteAlertRules (om_orgID om) ruleUids)
                             else (None, om))
           in case err of
                Some e \<Rightarrow> (Some (DeleteRulesFailed e), om1)
              | None \<Rightarrow>
                  if NewFolderUID du \<noteq> [] \<and> NewFolderUID du \<noteq> FolderUID du
                  then (case removeCreatedFolder (NewFolderUID du) (CreatedFolders om1) of
                          (found, createdFolders) \<Rightarrow>
                            (let om2 = om1\<lparr>CreatedFolders := createdFolders\<rparr>
                             in if found
                                then (case call_store store om2 (DeleteFolders (om_orgID om2) [NewFolderUID du]) of
                                        (Some e, om3) \<Rightarrow> (Some (DeleteFolderFailed (NewFolderName du) e), om3)
                                      | (None, om3) \<Rightarrow> (None, om3))
                                else (None, om2)))
                  else (None, om1)))"

subsection \<open>Examples\<close>

text \<open>Concrete values, used where a theorem is applied to an input.\<close>

text \<open>
  A decoder: it reads the JSON texts \<open>true\<close>, \<open>false\<close> and \<open>null\<close> as a boolean and
  an object with the one field \<open>type\<close> as a datasource.
\<close>

definition example_json :: json_lib where
  "example_json =
     \<lparr> UnmarshalBool = (\<lambda>raw. if raw = ''true'' then Some True
                              else if raw = ''false'' \<or> raw = ''null'' then Some False else None),
       UnmarshalDatasourceType = (\<lambda>raw. if raw = ''{'' @ quote ''type'' @ '':'' @ quote ''prometheus'' @ ''}''
                                         then Some ''prometheus''
                                        else if raw = ''{'' @ quote ''type'' @ '':'' @ quote ''something'' @ ''}''
                                         then Some ''something''
                                        else if raw = ''{}'' \<or> raw = ''null'' then Some []
                                        else None) \<rparr>"

text \<open>
  Lower case for the letters of ASCII, and the other parameters of the channel
  migration. The hash is right on the one name the examples hash, \<open>a"\<close>, whose MD5
  begins with the bytes \<open>f4 2e dc\<close>, and is the hash of the empty string elsewhere.
\<close>

definition example_lower :: "string \<Rightarrow> string" where
  "example_lower s =
     map (\<lambda>c. case map_of (zip ''ABCDEFGHIJKLMNOPQRSTUVWXYZ'' ''abcdefghijklmnopqrstuvwxyz'') c of
               None \<Rightarrow> c | Some l \<Rightarrow> l) s"

definition example_deps :: deps where
  "example_deps =
     \<lparr> GenerateShortUID = (\<lambda>n. replicate (Suc n) CHR ''u''),
       ToLower = example_lower,
       md5_hex3 = (\<lambda>s. if s = ''a'' @ [CHR 0x22] then ''f42edc'' else ''d41d8c''),
       QuoteMeta = (\<lambda>s. s),
       RegexpCompiles = (\<lambda>s. True),
       EncodeToString = (\<lambda>s. ''b64:'' @ s),
       DecryptSecure = (\<lambda>kvs. kvs),
       Encrypt = (\<lambda>s. Some (''enc:'' @ s)),
       MarshalJSON = (\<lambda>kvs. Some (concat (map fst kvs))),
       BuildReceiverConfiguration = (\<lambda>r. True),
       ContactLabel = ''__contacts__'' \<rparr>"

text \<open>A run that has seen three UIDs, on a store that compares without case.\<close>

definition example_migration :: migration where
  "example_migration =
     \<lparr> seenUIDs = \<lparr> uid_set = {''abc'', ''u'', ''uu''}, caseInsensitive = True \<rparr>, drawn = 0 \<rparr>"

definition example_channel :: AlertNotification where
  "example_channel =
     \<lparr> ID = 1, OrgID = 1, UID = ''ABC'', Name = ''notifier1'', Type = ''email'',
       DisableResolveMessage = False, IsDefault = False,
       Settings = JObject [(''addresses'', JString ''a@b.c'')], SecureSettings = [],
       SendReminder = False, Frequency = 0 \<rparr>"

text \<open>The settings of a slack channel with its URL and token in plaintext.\<close>

definition example_slack_settings :: "(string \<times> json) list" where
  "example_slack_settings =
     [(''url'', JString ''https://hook''), (''token'', JString ''plain''),
      (''recipient'', JString ''#alerts'')]"

text \<open>Two receivers, a rule, and the channel rows of two organisations.\<close>

definition example_receiversMap :: receiversMap where
  "example_receiversMap =
     [ByUID ''a'' \<mapsto> \<lparr> ReceiverName = ''A'', GrafanaManagedReceivers = [] \<rparr>,
      ByUID ''c'' \<mapsto> \<lparr> ReceiverName = ''C'', GrafanaManagedReceivers = [] \<rparr>]"

definition example_rule :: AlertRule where
  "example_rule =
     \<lparr> RuleOrgID = 1, Title = ''alert1'', RuleUID = ''rule1'', NamespaceUID = ''folder1'',
       RuleGroup = ''dash - 1'', Labels = Map.empty \<rparr>"

definition example_rows :: "AlertNotification list" where
  "example_rows =
     [example_channel\<lparr>IsDefault := True\<rparr>,
      example_channel\<lparr>ID := 2, UID := ''slack1'', Name := ''ops'', Type := ''slack'',
                       Settings := JObject example_slack_settings\<rparr>,
      example_channel\<lparr>ID := 3, OrgID := 2, UID := ''hip1'', Name := ''chat'', Type := ''hipchat''\<rparr>]"

text \<open>Three channels whose names collide once sanitized and hashed.\<close>

definition example_colliding_channels :: "AlertNotification list" where
  "example_colliding_channels =
     [example_channel\<lparr>ID := 1, UID := ''c1'', Name := ''a__f42edc''\<rparr>,
      example_channel\<lparr>ID := 2, UID := ''c2'', Name := ''a_''\<rparr>,
      example_channel\<lparr>ID := 3, UID := ''c3'', Name := ''a'' @ [CHR 0x22]\<rparr>]"


text \<open>The state of a migrated organisation and the upgrade of one of its dashboards.\<close>

definition example_om :: OrgMigration where
  "example_om = \<lparr> om_orgID = 1, CreatedFolders = [''new1'', ''new2''], storeCalls = [] \<rparr>"

definition example_du :: DashboardUpgrade where
  "example_du =
     \<lparr> MigratedAlerts = [\<lparr> PairAlertRule = Some example_rule \<rparr>, \<lparr> PairAlertRule = None \<rparr>],
       FolderUID = ''folder5'', NewFolderUID = ''new1'', NewFolderName = ''dash1 Alerts - d1'' \<rparr>"

section \<open>Theorems\<close>

subsection \<open>State translation\<close>

text \<open>
  C7. The no-data translation maps the legacy values ok, no-data, the empty string,
  alerting and keep-last-state to OK, NoData, NoData, Alerting and NoData; the error
  translation maps alerting and the empty string to Alerting, keep-last-state to Error
  and ok to OK; any other string goes to NoData and to Error.
\<close>

theorem trans_states_table:
  assumes "legacy_options_ok lo"
  shows "transNoData lo (NoDataSetOK lo) = OK
       \<and> transNoData lo (NoDataSetNoData lo) = NoData
       \<and> transNoData lo [] = NoData
       \<and> transNoData lo (NoDataSetAlerting lo) = Alerting
       \<and> transNoData lo (NoDataKeepState lo) = NoData
       \<and> (s \<notin> {NoDataSetOK lo, NoDataSetNoData lo, [], NoDataSetAlerting lo, NoDataKeepState lo}
            \<longrightarrow> transNoData lo s = NoData)
       \<and> transExecErr lo (ExecutionErrorSetAlerting lo) = AlertingErrState
       \<and> transExecErr lo [] = AlertingErrState
       \<and> transExecErr lo (ExecutionErrorKeepState lo) = ErrorErrState
       \<and> transExecErr lo (ExecutionErrorSetOk lo) = OkErrState
       \<and> (t \<notin> {ExecutionErrorSetAlerting lo, [], ExecutionErrorKeepState lo, ExecutionErrorSetOk lo}
            \<longrightarrow> transExecErr lo t = ErrorErrState)"
  using assms by (auto simp: legacy_options_ok_def transNoData_def transExecErr_def)

theorem trans_states_table_witness:
  "legacy_options_ok grafana_legacy_options
   \<and> transNoData grafana_legacy_options ''ok'' = OK
   \<and> transNoData grafana_legacy_options ''no_data'' = NoData
   \<and> transNoData grafana_legacy_options [] = NoData
   \<and> transNoData grafana_legacy_options ''alerting'' = Alerting
   \<and> transNoData grafana_legacy_options ''keep_state'' = NoData
   \<and> transNoData grafana_legacy_options ''unknown'' = NoData
   \<and> transExecErr grafana_legacy_options ''alerting'' = AlertingErrState
   \<and> transExecErr grafana_legacy_options [] = AlertingErrState
   \<and> transExecErr grafana_legacy_options ''keep_state'' = ErrorErrState
   \<and> transExecErr grafana_legacy_options ''ok'' = OkErrState
   \<and> transExecErr grafana_legacy_options ''unknown'' = ErrorErrState"
proof -
  have ok: "legacy_options_ok grafana_legacy_options"
    by (simp add: legacy_options_ok_def grafana_legacy_options_def)
  show ?thesis
    using ok trans_states_table [OF ok, of "''unknown''" "''unknown''"]
    by (simp add: grafana_legacy_options_def)
qed

subsection \<open>Folder names\<close>

text \<open>
  C10. getAlertFolderNameFromDashboard returns a name exactly when the cap, 255 minus
  the length of the template applied to the empty title and the UID, is not negative.
  When the cap is negative (a UID of more than 245 bytes) the title is sliced at a
  negative index, whatever the title, and the function panics; otherwise the name is
  the template applied to the title cut at the cap, and it is at most 255 bytes long.
\<close>

theorem getAlertFolderNameFromDashboard_total_iff:
  "getAlertFolderNameFromDashboard dash =
     (if MaxFolderName - int (length (DASHBOARD_FOLDER [] (DashUID dash))) < 0
      then Inl SliceBoundsOutOfRange
      else Inr (DASHBOARD_FOLDER
                  (take (nat (MaxFolderName - int (length (DASHBOARD_FOLDER [] (DashUID dash)))))
                     (DashTitle dash))
                  (DashUID dash)))
   \<and> (MaxFolderName - int (length (DASHBOARD_FOLDER [] (DashUID dash))) < 0
        \<longleftrightarrow> 245 < length (DashUID dash))
   \<and> (case getAlertFolderNameFromDashboard dash of
         Inl e \<Rightarrow> 245 < length (DashUID dash)
       | Inr name \<Rightarrow> length name \<le> 255)"
  by (auto simp: getAlertFolderNameFromDashboard_def slice_upto_def Let_def
        DASHBOARD_FOLDER_def MaxFolderName_def split: sum.splits)

theorem getAlertFolderNameFromDashboard_total_iff_witness:
  "getAlertFolderNameFromDashboard
     \<lparr> DashID = 1, DashOrgID = 1, DashUID = replicate 246 CHR ''u'', DashTitle = [],
       HasACL = True, FolderID = 0 \<rparr>
     = Inl SliceBoundsOutOfRange
   \<and> getAlertFolderNameFromDashboard
       \<lparr> DashID = 1, DashOrgID = 1, DashUID = ''uid1'', DashTitle = ''My dashboard'',
         HasACL = True, FolderID = 0 \<rparr>
     = Inr ''My dashboard Alerts - uid1''
   \<and> getAlertFolderNameFromDashboard
       \<lparr> DashID = 1, DashOrgID = 1, DashUID = ''uid1'', DashTitle = replicate 300 CHR ''t'',
         HasACL = True, FolderID = 0 \<rparr>
     = Inr (replicate 241 CHR ''t'' @ '' Alerts - uid1'')"
  using getAlertFolderNameFromDashboard_total_iff
          [of "\<lparr> DashID = 1, DashOrgID = 1, DashUID = replicate 246 CHR ''u'', DashTitle = [],
                 HasACL = True, FolderID = 0 \<rparr>"]
        getAlertFolderNameFromDashboard_total_iff
          [of "\<lparr> DashID = 1, DashOrgID = 1, DashUID = ''uid1'', DashTitle = ''My dashboard'',
                 HasACL = True, FolderID = 0 \<rparr>"]
        getAlertFolderNameFromDashboard_total_iff
          [of "\<lparr> DashID = 1, DashOrgID = 1, DashUID = ''uid1'', DashTitle = replicate 300 CHR ''t'',
                 HasACL = True, FolderID = 0 \<rparr>"]
  by (simp add: DASHBOARD_FOLDER_def MaxFolderName_def)

subsection \<open>Prometheus queries of type Both\<close>

text \<open>
  C8. A query whose fields instant and range both decode to true is rewritten to
  instant = false, every other field (range among them) kept, when its datasource
  decodes to the type prometheus; when the datasource field is missing, or decodes to
  another type, or does not decode, the query is returned unchanged.
\<close>

theorem fixPrometheusBothTypeQuery_both:
  assumes "q ''instant'' = Some instantRaw" and "UnmarshalBool js instantRaw = Some True"
    and "q ''range'' = Some rangeRaw" and "UnmarshalBool js rangeRaw = Some True"
  shows "(q ''datasource'' = Some ds \<and> UnmarshalDatasourceType js ds = Some ''prometheus''
            \<longrightarrow> fixPrometheusBothTypeQuery js q = q(''instant'' \<mapsto> ''false'')
              \<and> fixPrometheusBothTypeQuery js q ''range'' = Some rangeRaw)
       \<and> (q ''datasource'' = None
            \<or> (q ''datasource'' = Some ds \<and> UnmarshalDatasourceType js ds \<noteq> Some ''prometheus'')
            \<longrightarrow> fixPrometheusBothTypeQuery js q = q)"
  using assms
  by (auto simp: fixPrometheusBothTypeQuery_def isPrometheusQuery_def split: option.splits)

theorem fixPrometheusBothTypeQuery_both_witness:
  "fixPrometheusBothTypeQuery example_json
     [''datasource'' \<mapsto> ''{'' @ quote ''type'' @ '':'' @ quote ''prometheus'' @ ''}'',
      ''instant'' \<mapsto> ''true'', ''range'' \<mapsto> ''true'']
   = [''datasource'' \<mapsto> ''{'' @ quote ''type'' @ '':'' @ quote ''prometheus'' @ ''}'',
      ''instant'' \<mapsto> ''true'', ''range'' \<mapsto> ''true''](''instant'' \<mapsto> ''false'')
   \<and> fixPrometheusBothTypeQuery example_json
        [''datasource'' \<mapsto> ''{'' @ quote ''type'' @ '':'' @ quote ''something'' @ ''}'',
         ''instant'' \<mapsto> ''true'', ''range'' \<mapsto> ''true'']
      = [''datasource'' \<mapsto> ''{'' @ quote ''type'' @ '':'' @ quote ''something'' @ ''}'',
         ''instant'' \<mapsto> ''true'', ''range'' \<mapsto> ''true'']
   \<and> fixPrometheusBothTypeQuery example_json [''instant'' \<mapsto> ''true'', ''range'' \<mapsto> ''true'']
      = [''instant'' \<mapsto> ''true'', ''range'' \<mapsto> ''true'']"
proof -
  let ?prom = "''{'' @ quote ''type'' @ '':'' @ quote ''prometheus'' @ ''}''"
  let ?other = "''{'' @ quote ''type'' @ '':'' @ quote ''something'' @ ''}''"
  have t: "UnmarshalBool example_json ''true'' = Some True"
    by (simp add: example_json_def)
  have p: "UnmarshalDatasourceType example_json ?prom = Some ''prometheus''"
    by (simp add: example_json_def)
  have o: "UnmarshalDatasourceType example_json ?other \<noteq> Some ''prometheus''"
    by (simp add: example_json_def quote_def)
  show ?thesis
    using fixPrometheusBothTypeQuery_both
            [of "[''datasource'' \<mapsto> ?prom, ''instant'' \<mapsto> ''true'', ''range'' \<mapsto> ''true'']"
                "''true''" example_json "''true''" ?prom]
          fixPrometheusBothTypeQuery_both
            [of "[''datasource'' \<mapsto> ?other, ''instant'' \<mapsto> ''true'', ''range'' \<mapsto> ''true'']"
                "''true''" example_json "''true''" ?other]
          fixPrometheusBothTypeQuery_both
            [of "[''instant'' \<mapsto> ''true'', ''range'' \<mapsto> ''true'']"
                "''true''" example_json "''true''" "[]"]
          t p o
    by simp
qed

subsection \<open>UID allocation\<close>





subsection \<open>The settings transcoder\<close>

lemma clone_loop_map_of:
  "map_of (foldl (\<lambda>clone (k, v). AList.update k v clone) acc ms) k
     = (case map_of (rev ms) k of None \<Rightarrow> map_of acc k | Some v \<Rightarrow> Some v)"
  by (induction ms arbitrary: acc) (auto simp: update_conv' split: option.splits)

lemma clone_loop_distinct:
  assumes "distinct (map fst ms)"
  shows "map_of (foldl (\<lambda>clone (k, v). AList.update k v clone) [] ms) = map_of ms"
proof
  fix k
  have "map_of (rev ms) = map_of ms"
    using assms by (subst map_of_inject_set) (simp_all add: rev_map [symmetric])
  then show "map_of (foldl (\<lambda>clone (k, v). AList.update k v clone) [] ms) k = map_of ms k"
    by (simp add: clone_loop_map_of split: option.splits)
qed

lemma migrateKeys_map_of:
  "migrateKeys keys c s = (c', s') \<Longrightarrow>
     map_of s' k =
       (if k \<in> set keys \<and> \<not> (\<exists>v. map_of s k = Some v \<and> v \<noteq> []) \<and> Get_MustString c k \<noteq> []
        then Some (Get_MustString c k) else map_of s k)
   \<and> map_of c' k =
       (if k \<in> set keys \<and> \<not> (\<exists>v. map_of s k = Some v \<and> v \<noteq> []) \<and> Get_MustString c k \<noteq> []
        then None else map_of c k)"
proof (induction keys arbitrary: c s)
  case Nil
  then show ?case by simp
next
  case (Cons a keys)
  show ?case
  proof (cases "(case map_of s a of Some v \<Rightarrow> v \<noteq> [] | None \<Rightarrow> False) \<or> Get_MustString c a = []")
    case True
    then have "migrateKeys keys c s = (c', s')"
      using Cons.prems by (auto simp: Let_def split: if_splits)
    from Cons.IH [OF this] True show ?thesis
      by (auto split: option.splits)
  next
    case False
    then have "migrateKeys keys (AList.delete a c) (AList.update a (Get_MustString c a) s) = (c', s')"
      using Cons.prems by (auto simp: Let_def)
    from Cons.IH [OF this] False show ?thesis
      by (auto simp: update_conv' delete_conv' Get_MustString_def split: option.splits)
  qed
qed

lemma encryptSecureSettings_map_of:
  "encryptSecureSettings d s = Inr e \<Longrightarrow>
     map_of e k = map_option (\<lambda>v. EncodeToString d (the (Encrypt d v))) (map_of s k)"
  by (induction s arbitrary: e) (auto split: option.splits sum.splits)

lemma encryptSecureSettings_values:
  "encryptSecureSettings d s = Inr e \<Longrightarrow> x \<in> set e \<Longrightarrow>
     \<exists>v c. Encrypt d v = Some c \<and> snd x = EncodeToString d c"
proof (induction s arbitrary: e)
  case Nil
  then show ?case by simp
next
  case (Cons kv s)
  obtain key val where kv: "kv = (key, val)" by (cases kv)
  from Cons.prems(1) kv obtain c rest where
    c: "Encrypt d val = Some c" and rest: "encryptSecureSettings d s = Inr rest"
    and e: "e = (key, EncodeToString d c) # rest"
    by (auto split: option.splits sum.splits)
  show ?case
  proof (cases "x = (key, EncodeToString d c)")
    case True
    then show ?thesis using c by auto
  next
    case False
    then have "x \<in> set rest" using Cons.prems(2) e by simp
    then show ?thesis using Cons.IH [OF rest] by simp
  qed
qed

lemma encryptSecureSettings_lookup:
  "encryptSecureSettings d s = Inr e \<Longrightarrow>
     (case map_of s k of
        None \<Rightarrow> map_of e k = None
      | Some v \<Rightarrow> \<exists>c. Encrypt d v = Some c \<and> map_of e k = Some (EncodeToString d c))"
  by (induction s arbitrary: e) (auto split: option.splits sum.splits)

text \<open>
  C9. When the transcoder returns, a key on record for the channel type whose decrypted
  secure value is absent or empty and whose plaintext value is a non-empty string has
  left the plaintext settings and holds the encrypted plaintext value in the secure
  settings; every other key keeps its plaintext value, and its secure value is the
  encryption of the decrypted one. Every value of the returned secure settings is the
  base64 text of an encryption. The table gives url and token for slack and
  integrationKey for pagerduty.
\<close>

theorem migrateSettingsToSecureSettings_moves:
  assumes "distinct (map fst members)"
    and "migrateSettingsToSecureSettings d chanType (JObject members) secureSettings
           = Inr (cloneSettings, newSecureSettings)"
  shows "(k \<in> set (secureKeysToMigrate chanType)
            \<and> \<not> (\<exists>v. map_of (DecryptSecure d secureSettings) k = Some v \<and> v \<noteq> [])
            \<and> map_of members k = Some (JString s) \<and> s \<noteq> []
          \<longrightarrow> map_of cloneSettings k = None
              \<and> (\<exists>c. Encrypt d s = Some c \<and> map_of newSecureSettings k = Some (EncodeToString d c)))
       \<and> (\<not> (k \<in> set (secureKeysToMigrate chanType)
               \<and> \<not> (\<exists>v. map_of (DecryptSecure d secureSettings) k = Some v \<and> v \<noteq> [])
               \<and> (\<exists>s. map_of members k = Some (JString s) \<and> s \<noteq> []))
          \<longrightarrow> map_of cloneSettings k = map_of members k
              \<and> (case map_of (DecryptSecure d secureSettings) k of
                    None \<Rightarrow> map_of newSecureSettings k = None
                  | Some v \<Rightarrow> \<exists>c. Encrypt d v = Some c
                                \<and> map_of newSecureSettings k = Some (EncodeToString d c)))
       \<and> (\<forall>x \<in> set newSecureSettings. \<exists>v c. Encrypt d v = Some c \<and> snd x = EncodeToString d c)
       \<and> secureKeysToMigrate ''slack'' = [''url'', ''token'']
       \<and> secureKeysToMigrate ''pagerduty'' = [''integrationKey'']"
proof -
  let ?clone = "foldl (\<lambda>clone (k, v). AList.update k v clone) [] members"
  let ?dec = "DecryptSecure d secureSettings"
  let ?moved = "k \<in> set (secureKeysToMigrate chanType)
                  \<and> \<not> (\<exists>v. map_of ?dec k = Some v \<and> v \<noteq> [])
                  \<and> Get_MustString ?clone k \<noteq> []"
  obtain sec where
    keys: "migrateKeys (secureKeysToMigrate chanType) ?clone ?dec = (cloneSettings, sec)"
    and enc: "encryptSecureSettings d sec = Inr newSecureSettings"
    using assms(2)
    by (auto simp: migrateSettingsToSecureSettings_def Map_json_def Let_def
          split: sum.splits prod.splits)
  have clone: "map_of ?clone = map_of members"
    using assms(1) by (rule clone_loop_distinct)
  have gms: "Get_MustString ?clone k = (case map_of members k of Some (JString s) \<Rightarrow> s | _ \<Rightarrow> [])"
    by (simp add: Get_MustString_def clone)
  note both = migrateKeys_map_of [OF keys, of k]
  have sec: "map_of sec k = (if ?moved then Some (Get_MustString ?clone k) else map_of ?dec k)"
    by (rule conjunct1 [OF both])
  have cl: "map_of cloneSettings k = (if ?moved then None else map_of members k)"
    using conjunct2 [OF both] by (simp only: clone)
  have look: "(case map_of sec k of
                 None \<Rightarrow> map_of newSecureSettings k = None
               | Some v \<Rightarrow> \<exists>c. Encrypt d v = Some c
                             \<and> map_of newSecureSettings k = Some (EncodeToString d c))"
    by (rule encryptSecureSettings_lookup [OF enc])
  have moved: "map_of cloneSettings k = None
         \<and> (\<exists>c. Encrypt d s = Some c \<and> map_of newSecureSettings k = Some (EncodeToString d c))"
    if "k \<in> set (secureKeysToMigrate chanType)"
       "\<not> (\<exists>v. map_of ?dec k = Some v \<and> v \<noteq> [])"
       "map_of members k = Some (JString s)" "s \<noteq> []"
  proof -
    have g: "Get_MustString ?clone k = s" using that gms by simp
    then have m: "?moved" using that by simp
    have "map_of sec k = Some (Get_MustString ?clone k)"
      using sec by (simp only: if_P [OF m])
    then have s1: "map_of sec k = Some s"
      by (simp only: g)
    have c1: "map_of cloneSettings k = None"
      using cl by (simp only: if_P [OF m])
    show ?thesis using s1 c1 look by simp
  qed
  have kept: "map_of cloneSettings k = map_of members k
         \<and> (case map_of ?dec k of
               None \<Rightarrow> map_of newSecureSettings k = None
             | Some v \<Rightarrow> \<exists>c. Encrypt d v = Some c
                           \<and> map_of newSecureSettings k = Some (EncodeToString d c))"
    if "\<not> (k \<in> set (secureKeysToMigrate chanType)
           \<and> \<not> (\<exists>v. map_of ?dec k = Some v \<and> v \<noteq> [])
           \<and> (\<exists>s. map_of members k = Some (JString s) \<and> s \<noteq> []))"
  proof -
    have nm: "\<not> ?moved"
      using that gms by (auto split: option.splits json.splits)
    have s1: "map_of sec k = map_of ?dec k"
      using sec by (simp only: if_not_P [OF nm])
    have c1: "map_of cloneSettings k = map_of members k"
      using cl by (simp only: if_not_P [OF nm])
    show ?thesis using s1 c1 look by simp
  qed
  have vals: "\<forall>x \<in> set newSecureSettings. \<exists>v c. Encrypt d v = Some c \<and> snd x = EncodeToString d c"
    using encryptSecureSettings_values [OF enc] by blast
  have table: "secureKeysToMigrate ''slack'' = [''url'', ''token'']"
    "secureKeysToMigrate ''pagerduty'' = [''integrationKey'']"
    by (simp_all add: secureKeysToMigrate_def secureKeysToMigrate_table_def)
  show ?thesis
    using moved kept vals table by blast
qed

theorem migrateSettingsToSecureSettings_moves_witness:
  "migrateSettingsToSecureSettings example_deps ''slack'' (JObject example_slack_settings)
       [(''token'', ''secret'')]
     = Inr ([(''token'', JString ''plain''), (''recipient'', JString ''#alerts'')],
            [(''token'', ''b64:enc:secret''), (''url'', ''b64:enc:https://hook'')])
   \<and> map_of [(''token'', JString ''plain''), (''recipient'', JString ''#alerts'')] ''url'' = None
   \<and> map_of [(''token'', ''b64:enc:secret''), (''url'', ''b64:enc:https://hook'')] ''url''
       = Some (EncodeToString example_deps (the (Encrypt example_deps ''https://hook'')))"
proof -
  have dist: "distinct (map fst example_slack_settings)"
    by (simp add: example_slack_settings_def)
  have run: "migrateSettingsToSecureSettings example_deps ''slack'' (JObject example_slack_settings)
               [(''token'', ''secret'')]
             = Inr ([(''token'', JString ''plain''), (''recipient'', JString ''#alerts'')],
                    [(''token'', ''b64:enc:secret''), (''url'', ''b64:enc:https://hook'')])"
    by (simp add: migrateSettingsToSecureSettings_def Map_json_def secureKeysToMigrate_def
          secureKeysToMigrate_table_def example_slack_settings_def example_deps_def
          Get_MustString_def AList.delete_eq Let_def)
  show ?thesis
    using run migrateSettingsToSecureSettings_moves [OF dist run, of "''url''" "''https://hook''"]
    by (simp add: example_deps_def example_slack_settings_def secureKeysToMigrate_def
          secureKeysToMigrate_table_def)
qed

subsection \<open>Contact labels\<close>








text \<open>A rule with the receivers C and A beside the default receiver B.\<close>

lemma contact_label_example:
  "Labels (fst (labelRule example_deps example_receiversMap [''B'']
                     (example_rule, [ByUID ''c'', ByID 7, ByUID ''a''])))
         (ContactLabel example_deps)
     = Some (quote ''A'' @ '','' @ quote ''B'' @ '','' @ quote ''C'')"
  by (simp add: labelRule_def filterReceiversForAlert_def example_receiversMap_def
        example_rule_def example_deps_def contactListToString_def quote_def)


subsection \<open>The root route\<close>


lemma createReceivers_loop_length:
  "createReceivers_loop d allChannels (receiversMap, receivers, names) m = (Inr (receiversMap', receivers'), m')
   \<Longrightarrow> length receivers' = length receivers + length allChannels"
proof (induction allChannels arbitrary: receiversMap receivers names m)
  case Nil
  then show ?case by simp
next
  case (Cons c allChannels)
  from Cons.prems obtain notifier m1 where
    n: "createNotifier d m c = (Inr notifier, m1)"
    by (auto split: prod.splits sum.splits)
  from Cons.prems n obtain rm1 cr names1 where
    "createReceivers_loop d allChannels (rm1, receivers @ [cr], names1) m1 = (Inr (receiversMap', receivers'), m')"
    by (auto simp: Let_def)
  from Cons.IH [OF this] show ?case by simp
qed

lemma createDefaultRouteAndReceiver_name:
  "createDefaultRouteAndReceiver d m defaultChannels = (Inr (defaultReceiver, defaultRoute), m')
   \<Longrightarrow> Receiver defaultRoute =
         (if length defaultChannels = 1 then Name (defaultChannels ! 0)
          else ''autogen-contact-point-default'')"
proof -
  assume run: "createDefaultRouteAndReceiver d m defaultChannels = (Inr (defaultReceiver, defaultRoute), m')"
  consider "length defaultChannels = 0" | "length defaultChannels = 1" | "1 < length defaultChannels"
    by linarith
  then show ?thesis
  proof cases
    case 1
    then show ?thesis
      using run by (auto simp: createDefaultRouteAndReceiver_def Let_def)
  next
    case 2
    then show ?thesis
      using run by (auto simp: createDefaultRouteAndReceiver_def Let_def)
  next
    case 3
    then show ?thesis
      using run
      by (auto simp: createDefaultRouteAndReceiver_def Let_def
            split: if_splits prod.splits sum.splits)
  qed
qed

lemma setupOrg_route:
  assumes "channels \<noteq> []"
    and "setupOrg d defaultChannelsPerOrg rulesPerOrg m orgID channels = (Inr (amConfig, rulesPerOrg'), m')"
  shows "\<exists>route. Route amConfig = Some route
           \<and> Receiver route =
               (let defaultChannels =
                      (case map_of defaultChannelsPerOrg orgID of None \<Rightarrow> [] | Some cs \<Rightarrow> cs)
                in if length defaultChannels = 1 then Name (defaultChannels ! 0)
                   else ''autogen-contact-point-default'')"
proof -
  let ?dc = "case map_of defaultChannelsPerOrg orgID of None \<Rightarrow> [] | Some cs \<Rightarrow> cs"
  from assms(2) obtain receiversMap receivers m1 where
    cr: "createReceivers d m channels = (Inr (receiversMap, receivers), m1)"
    by (auto simp: setupOrg_def Let_def split: prod.splits sum.splits)
  have "length receivers = length channels"
    using createReceivers_loop_length [of d channels Map.empty "[]" "{}" m receiversMap receivers m1] cr
    by (simp add: createReceivers_def)
  then have ne: "length receivers \<noteq> 0"
    using assms(1) by simp
  from assms(2) cr ne obtain defaultReceiver defaultRoute m2 where
    dr: "createDefaultRouteAndReceiver d m1 ?dc = (Inr (defaultReceiver, defaultRoute), m2)"
    by (auto simp: setupOrg_def Let_def split: prod.splits sum.splits)
  from assms(2) cr ne dr obtain routes where
    "Route amConfig = Some (MkRoute (Receiver defaultRoute) (Routes defaultRoute @ routes)
                              (GroupByStr defaultRoute) (ObjectMatchers defaultRoute)
                              (Continue defaultRoute) (RepeatInterval defaultRoute))"
    by (auto simp: setupOrg_def Let_def split: prod.splits sum.splits option.splits)
  then show ?thesis
    using createDefaultRouteAndReceiver_name [OF dr] by (simp add: Let_def)
qed

lemma setupOrg_no_channels:
  "setupOrg d defaultChannelsPerOrg rulesPerOrg m orgID []
     = (Inr (\<lparr> Receivers = [], Route = None \<rparr>, rulesPerOrg), m)"
  by (simp add: setupOrg_def createReceivers_def)

lemma setupOrgs_other:
  "setupOrgs d dflt orgs cfgs rules m = (Inr (cfgs', rules'), m') \<Longrightarrow> orgID \<notin> fst ` set orgs
   \<Longrightarrow> map_of cfgs' orgID = map_of cfgs orgID"
proof (induction orgs arbitrary: cfgs rules m)
  case Nil
  then show ?case by simp
next
  case (Cons oc orgs)
  obtain org channels where oc: "oc = (org, channels)" by (cases oc)
  from Cons.prems(1) oc obtain amConfig rules1 m1 where
    "setupOrgs d dflt orgs (AList.update org amConfig cfgs) rules1 m1 = (Inr (cfgs', rules'), m')"
    by (auto split: prod.splits sum.splits)
  from Cons.IH [OF this] Cons.prems(2) oc show ?case
    by (simp add: update_conv')
qed

lemma setupOrgs_route:
  "setupOrgs d dflt orgs cfgs rules m = (Inr (cfgs', rules'), m')
   \<Longrightarrow> (\<And>org channels. (org, channels) \<in> set orgs \<Longrightarrow> channels \<noteq> [])
   \<Longrightarrow> orgID \<in> fst ` set orgs
   \<Longrightarrow> \<exists>amConfig route. map_of cfgs' orgID = Some amConfig \<and> Route amConfig = Some route
         \<and> Receiver route =
             (let defaultChannels = (case map_of dflt orgID of None \<Rightarrow> [] | Some cs \<Rightarrow> cs)
              in if length defaultChannels = 1 then Name (defaultChannels ! 0)
                 else ''autogen-contact-point-default'')"
proof (induction orgs arbitrary: cfgs rules m)
  case Nil
  then show ?case by simp
next
  case (Cons oc orgs)
  obtain org channels where oc: "oc = (org, channels)" by (cases oc)
  from Cons.prems(1) oc obtain amConfig rules1 m1 where
    one: "setupOrg d dflt rules m org channels = (Inr (amConfig, rules1), m1)"
    and rest: "setupOrgs d dflt orgs (AList.update org amConfig cfgs) rules1 m1 = (Inr (cfgs', rules'), m')"
    by (auto split: prod.splits sum.splits)
  show ?case
  proof (cases "orgID \<in> fst ` set orgs")
    case True
    show ?thesis
      by (rule Cons.IH [OF rest _ True]) (use Cons.prems(2) in auto)
  next
    case False
    then have eq: "orgID = org"
      using Cons.prems(3) oc by auto
    have "channels \<noteq> []"
      using Cons.prems(2) [of org channels] oc by simp
    from setupOrg_route [OF this one] obtain route where
      r: "Route amConfig = Some route"
         "Receiver route =
            (let defaultChannels = (case map_of dflt org of None \<Rightarrow> [] | Some cs \<Rightarrow> cs)
             in if length defaultChannels = 1 then Name (defaultChannels ! 0)
                else ''autogen-contact-point-default'')"
      by blast
    have "map_of cfgs' orgID = Some amConfig"
      using setupOrgs_other [OF rest False] eq by (simp add: update_conv')
    then show ?thesis
      using r eq by blast
  qed
qed

lemma append_channel_lookup:
  "map_of (append_channel c m) org =
     (if OrgID c = org then Some ((case map_of m org of None \<Rightarrow> [] | Some cs \<Rightarrow> cs) @ [c])
      else map_of m org)"
  by (simp add: append_channel_def update_conv')

lemma update_entries:
  "(k', v') \<in> set (AList.update k v al) \<Longrightarrow> (k', v') = (k, v) \<or> (k', v') \<in> set al"
  by (induction al) (auto split: if_splits)

lemma channel_loop_all:
  "map_of (fst (getNotificationChannelMap_loop cs (allMap, defaultMap))) org =
     (let new = filter (\<lambda>c. OrgID c = org \<and> Type c \<noteq> ''hipchat'' \<and> Type c \<noteq> ''sensu'') cs
      in if new = [] then map_of allMap org
         else Some ((case map_of allMap org of None \<Rightarrow> [] | Some xs \<Rightarrow> xs) @ new))"
  by (induction cs arbitrary: allMap defaultMap) (auto simp: append_channel_lookup Let_def)

lemma channel_loop_default:
  "map_of (snd (getNotificationChannelMap_loop cs (allMap, defaultMap))) org =
     (let new = filter (\<lambda>c. OrgID c = org \<and> Type c \<noteq> ''hipchat'' \<and> Type c \<noteq> ''sensu''
                            \<and> IsDefault c) cs
      in if new = [] then map_of defaultMap org
         else Some ((case map_of defaultMap org of None \<Rightarrow> [] | Some xs \<Rightarrow> xs) @ new))"
  by (induction cs arbitrary: allMap defaultMap) (auto simp: append_channel_lookup Let_def)

lemma channel_loop_nonempty:
  "(org, channels) \<in> set (fst (getNotificationChannelMap_loop cs (allMap, defaultMap)))
   \<Longrightarrow> (\<And>org channels. (org, channels) \<in> set allMap \<Longrightarrow> channels \<noteq> [])
   \<Longrightarrow> channels \<noteq> []"
proof (induction cs arbitrary: allMap defaultMap)
  case Nil
  then show ?case by simp
next
  case (Cons c cs)
  show ?case
  proof (cases "Type c = ''hipchat'' \<or> Type c = ''sensu''")
    case True
    then show ?thesis using Cons by simp
  next
    case False
    let ?dflt = "if IsDefault c then append_channel c defaultMap else defaultMap"
    have mem: "(org, channels) \<in> set (fst (getNotificationChannelMap_loop cs (append_channel c allMap, ?dflt)))"
      using Cons.prems(1) False by simp
    show ?thesis
    proof (rule Cons.IH [OF mem])
      fix org' channels'
      assume "(org', channels') \<in> set (append_channel c allMap)"
      then show "channels' \<noteq> []"
        using update_entries [of org' channels' "OrgID c" _ allMap] Cons.prems(2)
        by (auto simp: append_channel_def)
    qed
  qed
qed


lemma setupAlertmanagerConfigs_no_rows:
  assumes "setupAlertmanagerConfigs d (Some rows) rulesPerOrg m = (Inr (amConfigPerOrg, rulesPerOrg'), m')"
   and "rows = []"
  shows "amConfigPerOrg = []"
    using assms by (simp add: setupAlertmanagerConfigs_def getNotificationChannelMap_def)

lemma setupAlertmanagerConfigs_rows:
  assumes "setupAlertmanagerConfigs d (Some rows) rulesPerOrg m = (Inr (amConfigPerOrg, rulesPerOrg'), m')"
    and "rows \<noteq> []"
  shows "setupOrgs d (snd (getNotificationChannelMap_loop rows ([], [])))
           (fst (getNotificationChannelMap_loop rows ([], []))) [] rulesPerOrg m
         = (Inr (amConfigPerOrg, rulesPerOrg'), m')"
  using assms
  by (cases "getNotificationChannelMap_loop rows ([], [])")
     (simp add: setupAlertmanagerConfigs_def getNotificationChannelMap_def)

lemma channel_map_all:
  "map_of (fst (getNotificationChannelMap_loop rows ([], []))) orgID =
     (if filter (\<lambda>c. OrgID c = orgID \<and> Type c \<noteq> ''hipchat'' \<and> Type c \<noteq> ''sensu'') rows = []
      then None
      else Some (filter (\<lambda>c. OrgID c = orgID \<and> Type c \<noteq> ''hipchat'' \<and> Type c \<noteq> ''sensu'') rows))"
  using channel_loop_all [of rows "[]" "[]" orgID]
  by (simp only: Let_def map_of.simps option.case append_Nil)

lemma channel_map_default:
  "(case map_of (snd (getNotificationChannelMap_loop rows ([], []))) orgID of
      None \<Rightarrow> [] | Some cs \<Rightarrow> cs)
     = filter (\<lambda>c. OrgID c = orgID \<and> Type c \<noteq> ''hipchat'' \<and> Type c \<noteq> ''sensu''
                    \<and> IsDefault c) rows"
proof -
  let ?dflts = "filter (\<lambda>c. OrgID c = orgID \<and> Type c \<noteq> ''hipchat'' \<and> Type c \<noteq> ''sensu''
                            \<and> IsDefault c) rows"
  let ?look = "map_of (snd (getNotificationChannelMap_loop rows ([], []))) orgID"
  have d0: "?look = (if ?dflts = [] then None else Some ?dflts)"
    using channel_loop_default [of rows "[]" "[]" orgID]
    by (simp only: Let_def map_of.simps option.case append_Nil)
  show ?thesis
  proof (cases "?dflts = []")
    case True
    have "?look = None" using d0 by (simp only: if_P [OF True])
    then show ?thesis by (simp only: option.case True)
  next
    case False
    have "?look = Some ?dflts" using d0 by (simp only: if_not_P [OF False])
    then show ?thesis by (simp only: option.case)
  qed
qed

text \<open>
  C1, as the code has it. When setupAlertmanagerConfigs returns without an error, an
  organisation with at least one channel that is not of a discontinued type (hipchat,
  sensu) has a configuration with a root route; the receiver of the route is the name of
  the default channel when the organisation has exactly one, and
  autogen-contact-point-default when it has none or several. An organisation with no
  such channel has no configuration.
\<close>

theorem setupAlertmanagerConfigs_root_route:
  assumes "setupAlertmanagerConfigs d (Some rows) rulesPerOrg m = (Inr (amConfigPerOrg, rulesPerOrg'), m')"
  shows "(filter (\<lambda>c. OrgID c = orgID \<and> Type c \<noteq> ''hipchat'' \<and> Type c \<noteq> ''sensu'') rows = []
            \<longrightarrow> map_of amConfigPerOrg orgID = None)
       \<and> (filter (\<lambda>c. OrgID c = orgID \<and> Type c \<noteq> ''hipchat'' \<and> Type c \<noteq> ''sensu'') rows \<noteq> []
            \<longrightarrow> (\<exists>amConfig route.
                    map_of amConfigPerOrg orgID = Some amConfig \<and> Route amConfig = Some route
                    \<and> Receiver route =
                        (let defaultChannels =
                               filter (\<lambda>c. OrgID c = orgID \<and> Type c \<noteq> ''hipchat''
                                             \<and> Type c \<noteq> ''sensu'' \<and> IsDefault c) rows
                         in if length defaultChannels = 1 then Name (defaultChannels ! 0)
                            else ''autogen-contact-point-default'')))"
proof (intro conjI impI)
  let ?maps = "getNotificationChannelMap_loop rows ([], [])"
  let ?chans = "filter (\<lambda>c. OrgID c = orgID \<and> Type c \<noteq> ''hipchat'' \<and> Type c \<noteq> ''sensu'') rows"
  {
    assume empty: "?chans = []"
    show "map_of amConfigPerOrg orgID = None"
    proof (cases "rows = []")
      case True
      have "amConfigPerOrg = []"
        by (rule setupAlertmanagerConfigs_no_rows [OF assms True])
      then show ?thesis by simp
    next
      case False
      note run = setupAlertmanagerConfigs_rows [OF assms False]
      have "map_of (fst ?maps) orgID = None"
        using channel_map_all [of rows orgID] by (simp only: if_P [OF empty])
      then have "orgID \<notin> fst ` set (fst ?maps)"
        by (simp only: map_of_eq_None_iff not_False_eq_True)
      from setupOrgs_other [OF run this] show ?thesis by simp
    qed
  next
    assume some: "?chans \<noteq> []"
    then have rows: "rows \<noteq> []" by auto
    note run = setupAlertmanagerConfigs_rows [OF assms rows]
    have "map_of (fst ?maps) orgID = Some ?chans"
      using channel_map_all [of rows orgID] by (simp only: if_not_P [OF some])
    then have "map_of (fst ?maps) orgID \<noteq> None"
      by (simp only: option.distinct not_False_eq_True)
    then have mem: "orgID \<in> fst ` set (fst ?maps)"
      by (simp only: map_of_eq_None_iff not_not)
    have ne: "channels \<noteq> []" if "(org, channels) \<in> set (fst ?maps)" for org channels
      using that by (rule channel_loop_nonempty) simp
    from setupOrgs_route [OF run ne mem]
    show "\<exists>amConfig route.
            map_of amConfigPerOrg orgID = Some amConfig \<and> Route amConfig = Some route
            \<and> Receiver route =
                (let defaultChannels =
                       filter (\<lambda>c. OrgID c = orgID \<and> Type c \<noteq> ''hipchat''
                                     \<and> Type c \<noteq> ''sensu'' \<and> IsDefault c) rows
                 in if length defaultChannels = 1 then Name (defaultChannels ! 0)
                    else ''autogen-contact-point-default'')"
      by (simp only: channel_map_default)
  }
qed

theorem setupAlertmanagerConfigs_root_route_witness:
  "\<exists>amConfigPerOrg rulesPerOrg' m'.
      setupAlertmanagerConfigs example_deps (Some example_rows) [] example_migration
        = (Inr (amConfigPerOrg, rulesPerOrg'), m')
      \<and> map_of amConfigPerOrg 2 = None
      \<and> (\<exists>amConfig route. map_of amConfigPerOrg 1 = Some amConfig \<and> Route amConfig = Some route
            \<and> Receiver route = ''notifier1'')"
proof -
  have "\<exists>res m'. setupAlertmanagerConfigs example_deps (Some example_rows) [] example_migration
                    = (Inr res, m')"
    by (simp add: setupAlertmanagerConfigs_def getNotificationChannelMap_def example_rows_def
          example_channel_def example_deps_def example_migration_def append_channel_def setupOrg_def
          createReceivers_def createNotifier_def determineChannelUid_def generateUid_def contains_def
          add_def example_lower_def migrateSettingsToSecureSettings_def Map_json_def
          secureKeysToMigrate_def secureKeysToMigrate_table_def Get_MustString_def
          example_slack_settings_def sanitize_def createDefaultRouteAndReceiver_def createRoute_def
          quote_def validateAlertmanagerConfig_def Let_def numeral_eq_Suc AList.delete_eq)
  then obtain amConfigPerOrg rulesPerOrg' m' where
    run: "setupAlertmanagerConfigs example_deps (Some example_rows) [] example_migration
            = (Inr (amConfigPerOrg, rulesPerOrg'), m')"
    by auto
  have org1: "filter (\<lambda>c. OrgID c = 1 \<and> Type c \<noteq> ''hipchat'' \<and> Type c \<noteq> ''sensu'') example_rows \<noteq> []"
    and org2: "filter (\<lambda>c. OrgID c = 2 \<and> Type c \<noteq> ''hipchat'' \<and> Type c \<noteq> ''sensu'') example_rows = []"
    and dflt: "filter (\<lambda>c. OrgID c = 1 \<and> Type c \<noteq> ''hipchat'' \<and> Type c \<noteq> ''sensu'' \<and> IsDefault c)
                 example_rows = [example_channel\<lparr>IsDefault := True\<rparr>]"
    by (simp_all add: example_rows_def example_channel_def)
  have name: "Name (example_channel\<lparr>IsDefault := True\<rparr>) = ''notifier1''"
    by (simp add: example_channel_def)
  show ?thesis
    using run setupAlertmanagerConfigs_root_route [OF run, of 1]
      setupAlertmanagerConfigs_root_route [OF run, of 2] org1 org2
    by (simp add: dflt name)
qed

text \<open>
  C1 as stated fails for an organisation without notification channels. Organisation 1
  has a migrated rule. With no channel rows at all, and also when its one channel is of
  the discontinued type hipchat, the result holds no configuration for it, so no root
  route. And when the body of the loop gets an empty list of channels it stops at the
  guard on the receivers and leaves a configuration without receivers and without a
  route.
\<close>

theorem no_channels_no_root_route_counterexample:
  "fst (setupAlertmanagerConfigs example_deps (Some [])
          [(1, [(example_rule, [ByUID ''ABC''])])] example_migration)
     = Inr ([], [(1, [(example_rule, [ByUID ''ABC''])])])
   \<and> fst (setupAlertmanagerConfigs example_deps (Some [example_channel\<lparr>Type := ''hipchat''\<rparr>])
          [(1, [(example_rule, [ByUID ''ABC''])])] example_migration)
     = Inr ([], [(1, [(example_rule, [ByUID ''ABC''])])])
   \<and> map_of ([] :: amConfigsPerOrg) 1 = None
   \<and> fst (setupOrg example_deps [] [] example_migration 1 [])
       = Inr (\<lparr> Receivers = [], Route = None \<rparr>, [])"
  by (simp add: setupAlertmanagerConfigs_def getNotificationChannelMap_def setupOrg_no_channels
        example_channel_def)

subsection \<open>Receiver names\<close>


lemma sanitize_no_quote: "CHR 0x22 \<notin> set s \<Longrightarrow> sanitize s = s"
  by (induction s) (auto simp: sanitize_def)

lemma createReceivers_loop_step:
  assumes "createReceivers_loop d (c # allChannels) (receiversMap, receivers, names) m
             = (Inr (receiversMap', receivers'), m')"
  shows "\<exists>receiversMap1 cr m1.
           ReceiverName (receiver cr) =
             (if sanitize (Name c) \<in> names then sanitize (Name c) @ ''_'' @ md5_hex3 d (Name c)
              else sanitize (Name c))
         \<and> createReceivers_loop d allChannels
               (receiversMap1, receivers @ [cr], insert (ReceiverName (receiver cr)) names) m1
             = (Inr (receiversMap', receivers'), m')"
proof -
  from assms obtain notifier m1 where
    n: "createNotifier d m c = (Inr notifier, m1)"
    by (auto split: prod.splits sum.splits)
  define nm where
    "nm = (if sanitize (Name c) \<in> names then sanitize (Name c) @ ''_'' @ md5_hex3 d (Name c)
           else sanitize (Name c))"
  define cr where
    "cr = \<lparr> channel = c,
            receiver = \<lparr> ReceiverName = nm, GrafanaManagedReceivers = [notifier\<lparr>NotifierName := nm\<rparr>] \<rparr> \<rparr>"
  define rm1 where
    "rm1 = (let byUid = (if UID c \<noteq> [] then receiversMap(ByUID (UID c) \<mapsto> receiver cr) else receiversMap)
            in if ID c \<noteq> 0 then byUid(ByID (ID c) \<mapsto> receiver cr) else byUid)"
  have name: "ReceiverName (receiver cr) = nm"
    by (simp add: cr_def)
  have "createReceivers_loop d (c # allChannels) (receiversMap, receivers, names) m
          = createReceivers_loop d allChannels (rm1, receivers @ [cr], insert nm names) m1"
    by (simp only: createReceivers_loop.simps(2) n prod.case sum.case Let_def nm_def cr_def rm1_def)
  then have "createReceivers_loop d allChannels (rm1, receivers @ [cr], insert nm names) m1
          = (Inr (receiversMap', receivers'), m')"
    using assms by simp
  then show ?thesis
    unfolding nm_def [symmetric] using name by metis
qed

text \<open>
  C5 fails on the code. After the hash of the original name is appended, the new name
  is not looked up again, so it can be a name already in use. For channels named, in
  this order, \<open>a__\<close> followed by the hash of \<open>a"\<close>, then \<open>a_\<close>, then \<open>a"\<close>:
  the third is sanitized to \<open>a_\<close>, which is taken, and gets the name of the first. The
  hash is a parameter; MD5 in hexadecimal has no double quote in its text.
\<close>

theorem createReceivers_duplicate_names:
  assumes "CHR 0x22 \<notin> set (md5_hex3 d (''a'' @ [CHR 0x22]))"
    and "Name c1 = ''a__'' @ md5_hex3 d (''a'' @ [CHR 0x22])"
    and "Name c2 = ''a_''"
    and "Name c3 = ''a'' @ [CHR 0x22]"
    and "createReceivers d m [c1, c2, c3] = (Inr (receiversMap, receivers), m')"
  shows "map (\<lambda>cr. ReceiverName (receiver cr)) receivers = [Name c1, ''a_'', Name c1]
       \<and> \<not> distinct (map (\<lambda>cr. ReceiverName (receiver cr)) receivers)"
proof -
  have s1: "sanitize (Name c1) = Name c1"
    using assms(1,2) by (intro sanitize_no_quote) simp
  have s2: "sanitize (Name c2) = ''a_''"
    using assms(3) by (simp add: sanitize_def)
  have s3: "sanitize (Name c3) = ''a_''"
    using assms(4) by (simp add: sanitize_def)
  have ne: "''a_'' \<noteq> Name c1"
    using assms(2) by simp
  from assms(5) have
    "createReceivers_loop d [c1, c2, c3] (Map.empty, [], {}) m = (Inr (receiversMap, receivers), m')"
    by (simp add: createReceivers_def)
  from createReceivers_loop_step [OF this] obtain rm1 cr1 m1 where
    n1: "ReceiverName (receiver cr1) = Name c1"
    and l1: "createReceivers_loop d [c2, c3] (rm1, [cr1], {Name c1}) m1 = (Inr (receiversMap, receivers), m')"
    by (auto simp: s1 simp del: createReceivers_loop.simps)
  from createReceivers_loop_step [OF l1] obtain rm2 cr2 m2 where
    n2: "ReceiverName (receiver cr2) = ''a_''"
    and l2: "createReceivers_loop d [c3] (rm2, [cr1, cr2], {''a_'', Name c1}) m2 = (Inr (receiversMap, receivers), m')"
    using ne by (auto simp: s2 insert_commute simp del: createReceivers_loop.simps)
  from createReceivers_loop_step [OF l2] obtain rm3 cr3 m3 where
    n3: "ReceiverName (receiver cr3) = ''a_'' @ ''_'' @ md5_hex3 d (Name c3)"
    and l3: "createReceivers_loop d [] (rm3, [cr1, cr2, cr3], insert (ReceiverName (receiver cr3)) {''a_'', Name c1}) m3
               = (Inr (receiversMap, receivers), m')"
    by (auto simp: s3 simp del: createReceivers_loop.simps)
  have "receivers = [cr1, cr2, cr3]"
    using l3 by simp
  moreover have "ReceiverName (receiver cr3) = Name c1"
    using n3 assms(2,4) by simp
  ultimately show ?thesis
    using n1 n2 by simp
qed

theorem createReceivers_duplicate_names_witness:
  "\<exists>receiversMap receivers m'.
      createReceivers example_deps example_migration example_colliding_channels
        = (Inr (receiversMap, receivers), m')
      \<and> map (\<lambda>cr. ReceiverName (receiver cr)) receivers = [''a__f42edc'', ''a_'', ''a__f42edc'']
      \<and> \<not> distinct (map (\<lambda>cr. ReceiverName (receiver cr)) receivers)"
proof -
  have "\<exists>res m'. createReceivers example_deps example_migration example_colliding_channels = (Inr res, m')"
    by (simp add: example_colliding_channels_def example_channel_def example_deps_def
          example_migration_def createReceivers_def createNotifier_def determineChannelUid_def
          contains_def example_lower_def migrateSettingsToSecureSettings_def Map_json_def
          secureKeysToMigrate_def secureKeysToMigrate_table_def sanitize_def Let_def)
  then obtain receiversMap receivers m' where
    run: "createReceivers example_deps example_migration
            [example_channel\<lparr>ID := 1, UID := ''c1'', Name := ''a__f42edc''\<rparr>,
             example_channel\<lparr>ID := 2, UID := ''c2'', Name := ''a_''\<rparr>,
             example_channel\<lparr>ID := 3, UID := ''c3'', Name := ''a'' @ [CHR 0x22]\<rparr>]
          = (Inr (receiversMap, receivers), m')"
    by (auto simp: example_colliding_channels_def)
  have h: "CHR 0x22 \<notin> set (md5_hex3 example_deps (''a'' @ [CHR 0x22]))"
    by (simp add: example_deps_def)
  have n1: "Name (example_channel\<lparr>ID := 1, UID := ''c1'', Name := ''a__f42edc''\<rparr>)
              = ''a__'' @ md5_hex3 example_deps (''a'' @ [CHR 0x22])"
    by (simp add: example_deps_def)
  show ?thesis
    using createReceivers_duplicate_names [OF h n1 _ _ run] run
    by (simp add: example_colliding_channels_def)
qed

subsection \<open>Titles in one folder\<close>






subsection \<open>Cleanup\<close>


lemma removeCreatedFolder_remove1:
  "removeCreatedFolder uid createdFolders = (uid \<in> set createdFolders, remove1 uid createdFolders)"
  by (induction createdFolders) auto

lemma call_store_calls:
  "call_store store om c = (r, om1)
   \<Longrightarrow> storeCalls om1 = storeCalls om @ [c] \<and> CreatedFolders om1 = CreatedFolders om
       \<and> om_orgID om1 = om_orgID om"
  by (auto simp: call_store_def)

lemma cleanupDashboardAlerts_rules:
  assumes "(if 0 < length ruleUids
            then call_store store om (DeleteAlertRules (om_orgID om) ruleUids)
            else (None, om)) = (err, om1)"
  shows "(storeCalls om1 = storeCalls om \<or> storeCalls om1 = storeCalls om @ [DeleteAlertRules (om_orgID om) ruleUids])
       \<and> CreatedFolders om1 = CreatedFolders om \<and> om_orgID om1 = om_orgID om"
  using assms call_store_calls [of store om "DeleteAlertRules (om_orgID om) ruleUids" err om1]
  by (auto split: if_splits)

text \<open>
  C3. The calls cleanupDashboardAlerts makes on the store are at most two: one that
  deletes the rules recorded for the dashboard, and one that deletes a folder. The
  folder is the new folder of the dashboard, it differs from the folder the dashboard
  was in, its UID is in CreatedFolders, and the list that is left is CreatedFolders
  without the first occurrence of the UID. A folder whose UID is not in CreatedFolders
  is in no call that deletes folders; no call deletes a dashboard.
\<close>

theorem cleanupDashboardAlerts_deletes_recorded:
  assumes "cleanupDashboardAlerts store om du' = (res, om')"
  shows "\<exists>calls. storeCalls om' = storeCalls om @ calls
          \<and> (\<forall>c \<in> set calls.
                case c of
                  DeleteAlertRules org uids \<Rightarrow>
                    org = om_orgID om
                    \<and> (\<exists>du. du' = Some du \<and> uids = migratedRuleUids (MigratedAlerts du))
                | DeleteFolders org uids \<Rightarrow>
                    org = om_orgID om
                    \<and> (\<exists>du. du' = Some du \<and> uids = [NewFolderUID du]
                          \<and> NewFolderUID du \<in> set (CreatedFolders om)
                          \<and> NewFolderUID du \<noteq> FolderUID du
                          \<and> CreatedFolders om' = remove1 (NewFolderUID du) (CreatedFolders om)))
          \<and> (uid \<notin> set (CreatedFolders om)
                \<longrightarrow> (\<forall>org uids. DeleteFolders org uids \<in> set calls \<longrightarrow> uid \<notin> set uids))"
proof (cases du')
  case None
  then have "om' = om" using assms by (simp add: cleanupDashboardAlerts_def)
  then show ?thesis by simp
next
  case (Some du)
  let ?ruleUids = "migratedRuleUids (MigratedAlerts du)"
  let ?del = "DeleteAlertRules (om_orgID om) ?ruleUids"
  let ?fold = "DeleteFolders (om_orgID om) [NewFolderUID du]"
  obtain err om1 where
    first: "(if 0 < length ?ruleUids then call_store store om ?del else (None, om)) = (err, om1)"
    by (cases "if 0 < length ?ruleUids then call_store store om ?del else (None, om)")
  note f = cleanupDashboardAlerts_rules [OF first]
  have unfold: "cleanupDashboardAlerts store om du' =
     (case err of
        Some e \<Rightarrow> (Some (DeleteRulesFailed e), om1)
      | None \<Rightarrow>
          if NewFolderUID du \<noteq> [] \<and> NewFolderUID du \<noteq> FolderUID du
          then (let om2 = om1\<lparr>CreatedFolders := remove1 (NewFolderUID du) (CreatedFolders om1)\<rparr>
                in if NewFolderUID du \<in> set (CreatedFolders om1)
                   then (case call_store store om2 (DeleteFolders (om_orgID om2) [NewFolderUID du]) of
                           (Some e, om3) \<Rightarrow> (Some (DeleteFolderFailed (NewFolderName du) e), om3)
                         | (None, om3) \<Rightarrow> (None, om3))
                   else (None, om2))
          else (None, om1))"
    using first
    by (cases err) (simp_all add: cleanupDashboardAlerts_def Some removeCreatedFolder_remove1 Let_def)
  consider (rules_only) "om' = om1"
    | (not_found) "om' = om1\<lparr>CreatedFolders := remove1 (NewFolderUID du) (CreatedFolders om1)\<rparr>"
                  "NewFolderUID du \<notin> set (CreatedFolders om1)"
    | (folder) "NewFolderUID du \<in> set (CreatedFolders om1)" "NewFolderUID du \<noteq> FolderUID du"
               "storeCalls om' = storeCalls om1 @ [?fold]"
               "CreatedFolders om' = remove1 (NewFolderUID du) (CreatedFolders om1)"
    using assms unfolding unfold
    by (auto simp: Let_def call_store_def f split: option.splits if_splits prod.splits)
  then show ?thesis
  proof cases
    case rules_only
    from f have "storeCalls om1 = storeCalls om @ [] \<or> storeCalls om1 = storeCalls om @ [?del]"
      by simp
    then show ?thesis
      using rules_only Some by (elim disjE; intro exI [of _ "[]"] exI [of _ "[?del]"]) auto
  next
    case not_found
    from f have "storeCalls om1 = storeCalls om @ [] \<or> storeCalls om1 = storeCalls om @ [?del]"
      by simp
    then show ?thesis
      using not_found Some by (elim disjE; intro exI [of _ "[]"] exI [of _ "[?del]"]) auto
  next
    case folder
    from f have "storeCalls om1 = storeCalls om @ [] \<or> storeCalls om1 = storeCalls om @ [?del]"
      by simp
    then show ?thesis
      using folder Some f
      by (elim disjE; intro exI [of _ "[?fold]"] exI [of _ "[?del, ?fold]"]) auto
  qed
qed

theorem cleanupDashboardAlerts_deletes_recorded_witness:
  "cleanupDashboardAlerts (\<lambda>calls c. None) example_om (Some example_du)
     = (None, \<lparr> om_orgID = 1, CreatedFolders = [''new2''],
                storeCalls = [DeleteAlertRules 1 [''rule1''], DeleteFolders 1 [''new1'']] \<rparr>)
   \<and> cleanupDashboardAlerts (\<lambda>calls c. None) example_om (Some (example_du\<lparr>NewFolderUID := ''old''\<rparr>))
     = (None, \<lparr> om_orgID = 1, CreatedFolders = [''new1'', ''new2''],
                storeCalls = [DeleteAlertRules 1 [''rule1'']] \<rparr>)"
proof -
  have run1: "cleanupDashboardAlerts (\<lambda>calls c. None) example_om (Some example_du)
     = (None, \<lparr> om_orgID = 1, CreatedFolders = [''new2''],
                storeCalls = [DeleteAlertRules 1 [''rule1''], DeleteFolders 1 [''new1'']] \<rparr>)"
    by (simp add: cleanupDashboardAlerts_def migratedRuleUids_def call_store_def example_om_def
          example_du_def example_rule_def)
  have run2: "cleanupDashboardAlerts (\<lambda>calls c. None) example_om (Some (example_du\<lparr>NewFolderUID := ''old''\<rparr>))
     = (None, \<lparr> om_orgID = 1, CreatedFolders = [''new1'', ''new2''],
                storeCalls = [DeleteAlertRules 1 [''rule1'']] \<rparr>)"
    by (simp add: cleanupDashboardAlerts_def migratedRuleUids_def call_store_def example_om_def
          example_du_def example_rule_def)
  show ?thesis
    using run1 run2 cleanupDashboardAlerts_deletes_recorded [OF run1, of "''old''"]
      cleanupDashboardAlerts_deletes_recorded [OF run2, of "''old''"]
    by simp
qed

end
